theory Spec2Isabelle
  imports Complex_Main "HOL-Library.Sublist"
begin

section \<open>Values, errors and the builtins the client uses\<close>

text \<open>
  The client (\<^verbatim>\<open>models/PhueAPI.py\<close>) moves decoded JSON around: the bodies of the
  bridge's responses, the keyword dictionaries the entity classes are built from, the
  \<^verbatim>\<open>state\<close> and \<^verbatim>\<open>action\<close> dictionaries of a light or group, the bodies of the
  requests it sends. \<open>json\<close> is the type of these values. A dictionary is an association
  list in insertion order; a finite float is the rational it denotes (order and equality
  on finite floats and integers are those of the rationals; NaN and the infinities have
  no counterpart). Strings are ASCII strings.
\<close>

datatype json =
    JNull
  | JBool bool
  | JInt int
  | JFloat rat
  | JStr string
  | JList "json list"
  | JObj "(string \<times> json) list"

text \<open>
  The exceptions of the module, and the exceptions of Python and of the HTTP library
  that its statements can raise.
  \<open>Unmodelled\<close> is no exception of the program: it marks a run that leaves the model,
  where a value that is no string reaches the attribute \<^verbatim>\<open>_ip\<close> or \<^verbatim>\<open>_username\<close>, which
  the source declares \<^verbatim>\<open>str\<close> and formats into URLs.
\<close>

datatype error =
    UnauthorizedUser
  | LinkButtonNotPressed
  | NoPhueIP
  | NoPhueBridgeFound
  | IPNotPhueBridge
  | PhueRegistrationError
  | PhueRequestError
  | SelectorError
  | NoSuchLight
  | NoSuchGroup
  | NoSuchScene
  | NoSuchSceneInGroup
  | NoSuchSceneInLight
  | LightNotReachable
  | TypeError
  | KeyError
  | IndexError
  | AttributeError
  | ValueError
  | FileNotFoundError
  | OSError
  | JSONDecodeError
  | RequestException
  | Exception
  | Unmodelled

type_synonym dict = "(string \<times> json) list"

subsection \<open>Dictionaries\<close>

text \<open>
  \<^verbatim>\<open>d[k] = v\<close>: an existing key keeps its place, a new key goes to the end.
  \<^verbatim>\<open>k in d\<close>, \<^verbatim>\<open>d[k]\<close> and \<^verbatim>\<open>d.pop(k)\<close> for a key that is present.
\<close>

fun dict_set :: "'k \<Rightarrow> 'v \<Rightarrow> ('k \<times> 'v) list \<Rightarrow> ('k \<times> 'v) list" where
  "dict_set k v [] = [(k, v)]"
| "dict_set k v ((k', v') # d) = (if k' = k then (k, v) # d else (k', v') # dict_set k v d)"

definition dict_has :: "'k \<Rightarrow> ('k \<times> 'v) list \<Rightarrow> bool" where
  "dict_has k d = (k \<in> set (map fst d))"

definition dict_get :: "('k \<times> 'v) list \<Rightarrow> 'k \<Rightarrow> 'v option" where
  "dict_get d k = map_of d k"

definition dict_del :: "'k \<Rightarrow> ('k \<times> 'v) list \<Rightarrow> ('k \<times> 'v) list" where
  "dict_del k d = filter (\<lambda>p. fst p \<noteq> k) d"

definition dict_values :: "('k \<times> 'v) list \<Rightarrow> 'v list" where
  "dict_values d = map snd d"

subsection \<open>Python's operators on decoded JSON\<close>

text \<open>Truth value of an object: \<^verbatim>\<open>if x\<close>, \<^verbatim>\<open>not x\<close>.\<close>

fun py_truthy :: "json \<Rightarrow> bool" where
  "py_truthy JNull = False"
| "py_truthy (JBool b) = b"
| "py_truthy (JInt n) = (n \<noteq> 0)"
| "py_truthy (JFloat r) = (r \<noteq> 0)"
| "py_truthy (JStr s) = (s \<noteq> [])"
| "py_truthy (JList xs) = (xs \<noteq> [])"
| "py_truthy (JObj d) = (d \<noteq> [])"

text \<open>\<^verbatim>\<open>x == s\<close> for a string \<open>s\<close>: only a string equals a string.\<close>

definition py_eq_str :: "json \<Rightarrow> string \<Rightarrow> bool" where
  "py_eq_str x s = (x = JStr s)"

text \<open>
  \<^verbatim>\<open>s in x\<close> for a string \<open>s\<close>: a key of a dictionary, an element of a list, a substring
  of a string; any other right operand raises TypeError.
\<close>

fun py_contains :: "string \<Rightarrow> json \<Rightarrow> error + bool" where
  "py_contains s (JObj d) = Inr (dict_has s d)"
| "py_contains s (JList xs) = Inr (JStr s \<in> set xs)"
| "py_contains s (JStr t) = Inr (sublist s t)"
| "py_contains s _ = Inl TypeError"

text \<open>\<^verbatim>\<open>x[s]\<close> for a string \<open>s\<close>: only a dictionary can be subscripted by a string.\<close>

fun py_getitem :: "json \<Rightarrow> string \<Rightarrow> error + json" where
  "py_getitem (JObj d) s = (case dict_get d s of None \<Rightarrow> Inl KeyError | Some v \<Rightarrow> Inr v)"
| "py_getitem _ s = Inl TypeError"

text \<open>\<^verbatim>\<open>x[s] = v\<close> for a string \<open>s\<close>.\<close>

fun py_setitem :: "json \<Rightarrow> string \<Rightarrow> json \<Rightarrow> error + json" where
  "py_setitem (JObj d) s v = Inr (JObj (dict_set s v d))"
| "py_setitem _ s v = Inl TypeError"

text \<open>\<^verbatim>\<open>x[0]\<close>: the first element of a list, the first character of a string.\<close>

fun py_first :: "json \<Rightarrow> error + json" where
  "py_first (JList []) = Inl IndexError"
| "py_first (JList (x # xs)) = Inr x"
| "py_first (JStr []) = Inl IndexError"
| "py_first (JStr (c # cs)) = Inr (JStr [c])"
| "py_first (JObj d) = Inl KeyError"
| "py_first _ = Inl TypeError"

text \<open>\<^verbatim>\<open>for y in x\<close>: the elements of a list, the keys of a dictionary, the characters of a string.\<close>

fun py_iter :: "json \<Rightarrow> error + json list" where
  "py_iter (JList xs) = Inr xs"
| "py_iter (JObj d) = Inr (map (\<lambda>p. JStr (fst p)) d)"
| "py_iter (JStr s) = Inr (map (\<lambda>c. JStr [c]) s)"
| "py_iter _ = Inl TypeError"

text \<open>\<^verbatim>\<open>x.items()\<close>: only a dictionary has the method.\<close>

fun py_items :: "json \<Rightarrow> error + dict" where
  "py_items (JObj d) = Inr d"
| "py_items _ = Inl AttributeError"

text \<open>\<^verbatim>\<open>x.append(v)\<close>: only a list has the method.\<close>

fun py_append :: "json \<Rightarrow> json \<Rightarrow> error + json" where
  "py_append (JList xs) v = Inr (JList (xs @ [v]))"
| "py_append _ v = Inl AttributeError"

text \<open>\<^verbatim>\<open>s.lower()\<close> on ASCII letters; only a string has the method.\<close>

definition lower_char :: "char \<Rightarrow> char" where
  "lower_char c =
     (let n = (of_char c :: nat) in if 65 \<le> n \<and> n \<le> 90 then char_of (n + 32) else c)"

definition lower :: "string \<Rightarrow> string" where
  "lower s = map lower_char s"

fun py_lower :: "json \<Rightarrow> error + json" where
  "py_lower (JStr s) = Inr (JStr (lower s))"
| "py_lower _ = Inl AttributeError"

subsection \<open>Integers and strings\<close>

text \<open>
  \<^verbatim>\<open>int(x)\<close>. A string is stripped of surrounding white space, may carry a sign, and is
  a run of decimal digits in which single underscores may separate digits; anything else
  is a ValueError. A float is truncated towards zero, a boolean is 0 or 1, and no other
  value converts.
\<close>

definition is_space :: "char \<Rightarrow> bool" where
  "is_space c = ((of_char c :: nat) \<in> {9, 10, 11, 12, 13, 32})"

definition strip :: "string \<Rightarrow> string" where
  "strip s = rev (dropWhile is_space (rev (dropWhile is_space s)))"

definition digit_val :: "char \<Rightarrow> int option" where
  "digit_val c =
     (let n = (of_char c :: nat) in if 48 \<le> n \<and> n \<le> 57 then Some (int n - 48) else None)"

fun parse_digits :: "int \<Rightarrow> bool \<Rightarrow> string \<Rightarrow> int option" where
  "parse_digits acc after_digit [] = (if after_digit then Some acc else None)"
| "parse_digits acc after_digit (c # cs) =
     (if c = CHR ''_'' then (if after_digit then parse_digits acc False cs else None)
      else case digit_val c of
             None \<Rightarrow> None
           | Some d \<Rightarrow> parse_digits (acc * 10 + d) True cs)"

definition int_of_str :: "string \<Rightarrow> error + int" where
  "int_of_str s =
     (let t = strip s;
          r = (case t of
                 [] \<Rightarrow> None
               | c # cs \<Rightarrow>
                   if c = CHR ''+'' then parse_digits 0 False cs
                   else if c = CHR ''-'' then map_option uminus (parse_digits 0 False cs)
                   else parse_digits 0 False t)
      in case r of None \<Rightarrow> Inl ValueError | Some n \<Rightarrow> Inr n)"

definition trunc :: "rat \<Rightarrow> int" where
  "trunc r = (if 0 \<le> r then \<lfloor>r\<rfloor> else \<lceil>r\<rceil>)"

fun py_int :: "json \<Rightarrow> error + int" where
  "py_int (JStr s) = int_of_str s"
| "py_int (JInt n) = Inr n"
| "py_int (JFloat r) = Inr (trunc r)"
| "py_int (JBool b) = Inr (if b then 1 else 0)"
| "py_int _ = Inl TypeError"

text \<open>\<^verbatim>\<open>str(n)\<close> of an integer, as an f-string formats it.\<close>

fun str_nat :: "nat \<Rightarrow> string" where
  "str_nat n =
     (if n < 10 then [char_of (48 + n)] else str_nat (n div 10) @ [char_of (48 + n mod 10)])"

declare str_nat.simps [simp del]

definition str_int :: "int \<Rightarrow> string" where
  "str_int i = (if i < 0 then CHR ''-'' # str_nat (nat (- i)) else str_nat (nat i))"

text \<open>
  \<^verbatim>\<open>sorted((lo, x, hi))[1]\<close>, the clamping idiom of the setters. On integers it is the
  middle element of the sorted triple. On decoded JSON the numbers are compared by value
  (a boolean counts as 0 or 1), the sort is stable, and a value that is no number cannot
  be compared.
\<close>

definition sorted_mid :: "int \<Rightarrow> int \<Rightarrow> int \<Rightarrow> int" where
  "sorted_mid lo x hi = sort [lo, x, hi] ! 1"

fun is_num :: "json \<Rightarrow> bool" where
  "is_num (JInt n) = True"
| "is_num (JFloat r) = True"
| "is_num (JBool b) = True"
| "is_num _ = False"

fun num_val :: "json \<Rightarrow> rat" where
  "num_val (JInt n) = of_int n"
| "num_val (JFloat r) = r"
| "num_val (JBool b) = (if b then 1 else 0)"
| "num_val _ = 0"

definition py_sorted_mid :: "json \<Rightarrow> json \<Rightarrow> json \<Rightarrow> error + json" where
  "py_sorted_mid lo x hi =
     (if is_num x then Inr (sort_key num_val [lo, x, hi] ! 1) else Inl TypeError)"

section \<open>The entity classes\<close>

text \<open>
  The three dataclasses. A field that the bridge's JSON fills holds a \<open>json\<close> value,
  whatever the annotation says: Python does not check it. The fields are prefixed by the
  class's initial (\<open>l_name\<close> is \<^verbatim>\<open>Light.name\<close>, \<open>g_name\<close> is \<^verbatim>\<open>Group.name\<close>,
  \<open>s_name\<close> is \<^verbatim>\<open>Scene.name\<close>). The back reference \<^verbatim>\<open>bridge\<close> is the flag "a
  bridge is attached"; the bridge itself is passed to every method that uses it.
  \<open>l_logger\<close> is \<open>None\<close> for the class's own logger.
\<close>

record Light =
  l_state :: json
  l_swupdate :: json
  l_type :: json
  l_name :: json
  l_modelid :: json
  l_manufacturername :: json
  l_productname :: json
  l_capabilities :: json
  l_config :: json
  l_uniqueid :: json
  l_swversion :: json
  l_swconfigid :: json
  l_productid :: json
  l_id :: int
  l_bridge :: bool
  l_myScenes :: json
  l_logger :: "json option"

record Group =
  g_name :: json
  g_lights :: json
  g_sensors :: json
  g_type :: json
  g_state :: json
  g_recycle :: json
  g_action :: json
  g_clazz :: json
  g_stream :: json
  g_locations :: json
  g_id :: int
  g_bridge :: bool
  g_myScenes :: json

record Scene =
  s_name :: json
  s_type :: json
  s_lights :: json
  s_owner :: json
  s_recycle :: json
  s_locked :: json
  s_appdata :: json
  s_picture :: json
  s_lastupdated :: json
  s_version :: json
  s_image :: json
  s_group :: json
  s_id :: string
  s_bridge :: bool

text \<open>
  A dataclass's constructor called as \<^verbatim>\<open>C(**data)\<close>: \<^verbatim>\<open>data\<close> must be a mapping,
  every key must be a field, and every field without a default must be given; otherwise
  TypeError. The arguments \<^verbatim>\<open>id\<close> and \<^verbatim>\<open>bridge\<close> are accepted and not recorded:
  \<^verbatim>\<open>init\<close>, which follows every construction in the source, overwrites both before
  either is read.
\<close>

definition kwargs_ok :: "string list \<Rightarrow> string list \<Rightarrow> dict \<Rightarrow> bool" where
  "kwargs_ok required optional d =
     (list_all (\<lambda>k. k \<in> set (required @ optional)) (map fst d) \<and>
      list_all (\<lambda>k. dict_has k d) required)"

definition arg :: "dict \<Rightarrow> string \<Rightarrow> json \<Rightarrow> json" where
  "arg d k dflt = (case dict_get d k of None \<Rightarrow> dflt | Some v \<Rightarrow> v)"

definition Light_required :: "string list" where
  "Light_required =
     [''state'', ''swupdate'', ''type'', ''name'', ''modelid'', ''manufacturername'',
      ''productname'', ''capabilities'', ''config'', ''uniqueid'', ''swversion'']"

definition Light_optional :: "string list" where
  "Light_optional = [''swconfigid'', ''productid'', ''id'', ''bridge'', ''myScenes'', ''logger'']"

fun Light_new :: "json \<Rightarrow> error + Light" where
  "Light_new (JObj d) =
     (if kwargs_ok Light_required Light_optional d then
        Inr \<lparr> l_state = arg d ''state'' JNull,
              l_swupdate = arg d ''swupdate'' JNull,
              l_type = arg d ''type'' JNull,
              l_name = arg d ''name'' JNull,
              l_modelid = arg d ''modelid'' JNull,
              l_manufacturername = arg d ''manufacturername'' JNull,
              l_productname = arg d ''productname'' JNull,
              l_capabilities = arg d ''capabilities'' JNull,
              l_config = arg d ''config'' JNull,
              l_uniqueid = arg d ''uniqueid'' JNull,
              l_swversion = arg d ''swversion'' JNull,
              l_swconfigid = arg d ''swconfigid'' (JStr []),
              l_productid = arg d ''productid'' (JStr []),
              l_id = 0,
              l_bridge = False,
              l_myScenes = arg d ''myScenes'' (JList []),
              l_logger = dict_get d ''logger'' \<rparr>
      else Inl TypeError)"
| "Light_new _ = Inl TypeError"

definition Light_init :: "int \<Rightarrow> Light \<Rightarrow> error + Light" where
  "Light_init lightId l =
     (case py_lower (l_name l) of
        Inl e \<Rightarrow> Inl e
      | Inr n \<Rightarrow> Inr (l\<lparr>l_id := lightId, l_bridge := True, l_name := n\<rparr>))"

definition Group_optional :: "string list" where
  "Group_optional =
     [''name'', ''lights'', ''sensors'', ''type'', ''state'', ''recycle'', ''action'', ''clazz'',
      ''stream'', ''locations'', ''id'', ''bridge'', ''myScenes'']"

fun Group_new :: "json \<Rightarrow> error + Group" where
  "Group_new (JObj d) =
     (if kwargs_ok [] Group_optional d then
        Inr \<lparr> g_name = arg d ''name'' (JStr []),
              g_lights = arg d ''lights'' (JList []),
              g_sensors = arg d ''sensors'' (JList []),
              g_type = arg d ''type'' (JStr []),
              g_state = arg d ''state'' (JObj []),
              g_recycle = arg d ''recycle'' (JBool False),
              g_action = arg d ''action'' (JObj []),
              g_clazz = arg d ''clazz'' (JStr []),
              g_stream = arg d ''stream'' (JObj []),
              g_locations = arg d ''locations'' (JObj []),
              g_id = 0,
              g_bridge = False,
              g_myScenes = arg d ''myScenes'' (JList []) \<rparr>
      else Inl TypeError)"
| "Group_new _ = Inl TypeError"

definition Group_init :: "int \<Rightarrow> Group \<Rightarrow> error + Group" where
  "Group_init groupId g =
     (case py_lower (g_name g) of
        Inl e \<Rightarrow> Inl e
      | Inr n \<Rightarrow> Inr (g\<lparr>g_id := groupId, g_bridge := True, g_name := n\<rparr>))"

definition Scene_required :: "string list" where
  "Scene_required =
     [''name'', ''type'', ''lights'', ''owner'', ''recycle'', ''locked'', ''appdata'', ''picture'',
      ''lastupdated'', ''version'']"

definition Scene_optional :: "string list" where
  "Scene_optional = [''image'', ''group'', ''id'', ''bridge'']"

fun Scene_new :: "json \<Rightarrow> error + Scene" where
  "Scene_new (JObj d) =
     (if kwargs_ok Scene_required Scene_optional d then
        Inr \<lparr> s_name = arg d ''name'' JNull,
              s_type = arg d ''type'' JNull,
              s_lights = arg d ''lights'' JNull,
              s_owner = arg d ''owner'' JNull,
              s_recycle = arg d ''recycle'' JNull,
              s_locked = arg d ''locked'' JNull,
              s_appdata = arg d ''appdata'' JNull,
              s_picture = arg d ''picture'' JNull,
              s_lastupdated = arg d ''lastupdated'' JNull,
              s_version = arg d ''version'' JNull,
              s_image = arg d ''image'' (JStr []),
              s_group = arg d ''group'' (JStr []),
              s_id = [],
              s_bridge = False \<rparr>
      else Inl TypeError)"
| "Scene_new _ = Inl TypeError"

definition Scene_init :: "string \<Rightarrow> Scene \<Rightarrow> error + Scene" where
  "Scene_init sceneId s =
     (case py_lower (s_name s) of
        Inl e \<Rightarrow> Inl e
      | Inr n \<Rightarrow> Inr (s\<lparr>s_id := sceneId, s_bridge := True, s_name := n\<rparr>))"

section \<open>The bridge session and its requests\<close>

text \<open>
  A request as \<^verbatim>\<open>requests.request\<close> receives it (the body before \<^verbatim>\<open>json.dumps\<close>,
  \<open>JNull\<close> for a request without body), and a response as the client reads it: its
  truth value (\<^verbatim>\<open>Response.ok\<close>) and what \<^verbatim>\<open>.json()\<close> returns, \<open>None\<close> when the body
  is no JSON. The network is a function from the requests issued so far, the current one
  last, to the outcome of the current one: \<open>None\<close> is a transport failure (the HTTP
  library raises).
\<close>

record request =
  rq_method :: string
  rq_url :: string
  rq_data :: json

record response =
  r_ok :: bool
  r_body :: "json option"

type_synonym network = "request list \<Rightarrow> response option"

definition r_json :: "response \<Rightarrow> error + json" where
  "r_json r = (case r_body r of None \<Rightarrow> Inl JSONDecodeError | Some j \<Rightarrow> Inr j)"

text \<open>
  The file at \<^verbatim>\<open>_confFile\<close>: missing, present but unreadable as JSON, or holding a
  JSON value. The storage is assumed writable.
\<close>

datatype conf_file = Missing | Unreadable | Stored json

text \<open>
  The \<^verbatim>\<open>Bridge\<close> object, with the state of its config file and the log of the requests
  issued through the HTTP library (\<open>b_sent\<close>, oldest first).
\<close>

record Bridge =
  b_ip :: "string option"
  b_deviceName :: string
  b_confFile :: conf_file
  b_username :: string
  b_connected :: bool
  b_groups :: "(int \<times> Group) list"
  b_lights :: "(int \<times> Light) list"
  b_scenes :: "(string \<times> Scene) list"
  b_sent :: "request list"

text \<open>
  An f-string's \<^verbatim>\<open>{self._ip}\<close>, and the \<^verbatim>\<open>"/" if not url.startswith("/") else ""\<close>
  of the URL builders.
\<close>

definition str_ip :: "string option \<Rightarrow> string" where
  "str_ip ip = (case ip of None \<Rightarrow> ''None'' | Some s \<Rightarrow> s)"

definition slash :: "string \<Rightarrow> string" where
  "slash url = (if \<not> prefix ''/'' url then ''/'' else [])"

definition http :: "network \<Rightarrow> request \<Rightarrow> Bridge \<Rightarrow> response option \<times> Bridge" where
  "http net rq b = (let sent = b_sent b @ [rq] in (net sent, b\<lparr>b_sent := sent\<rparr>))"

text \<open>
  The URL \<^verbatim>\<open>sendRequest\<close> requests: an empty or missing path is \<^verbatim>\<open>/api\<close>, any
  other path is prefixed by \<^verbatim>\<open>/api\<close> unless it starts with it. The path
  \<^verbatim>\<open>sendAuthRequest\<close> passes on: prefixed by the username unless the username
  occurs in it.
\<close>

definition api_url :: "Bridge \<Rightarrow> string option \<Rightarrow> string" where
  "api_url b url =
     (let url1 = (case url of None \<Rightarrow> ''/api'' | Some u \<Rightarrow> if u = [] then ''/api'' else u);
          url2 = (if \<not> prefix ''/api'' url1 then ''/api'' @ slash url1 @ url1 else url1)
      in ''http://'' @ str_ip (b_ip b) @ url2)"

definition auth_path :: "Bridge \<Rightarrow> string \<Rightarrow> string" where
  "auth_path b url =
     (if \<not> sublist (b_username b) url then ''/'' @ b_username b @ slash url @ url else url)"

definition sendRequest ::
  "network \<Rightarrow> string option \<Rightarrow> dict option \<Rightarrow> string \<Rightarrow> bool \<Rightarrow> Bridge
     \<Rightarrow> (error + response option) \<times> Bridge" where
  "sendRequest net url data method silent b =
     (let data1 = (case data of None \<Rightarrow> [] | Some d \<Rightarrow> d);
          rq = \<lparr>rq_method = method, rq_url = api_url b url, rq_data = JObj data1\<rparr>
      in case http net rq b of
           (Some r, b') \<Rightarrow> (Inr (Some r), b')
         | (None, b') \<Rightarrow> if \<not> silent then (Inl PhueRequestError, b') else (Inr None, b'))"

definition sendAuthRequest ::
  "network \<Rightarrow> string \<Rightarrow> dict option \<Rightarrow> string \<Rightarrow> bool \<Rightarrow> Bridge
     \<Rightarrow> (error + response option) \<times> Bridge" where
  "sendAuthRequest net url data method silent b =
     sendRequest net (Some (auth_path b url)) data method silent b"

text \<open>\<^verbatim>\<open>if req\<close> on an \<^verbatim>\<open>Optional[Response]\<close>.\<close>

definition resp_truthy :: "response option \<Rightarrow> bool" where
  "resp_truthy r = (case r of None \<Rightarrow> False | Some x \<Rightarrow> r_ok x)"

section \<open>Lookups in the registry\<close>

definition Bridge_light :: "Bridge \<Rightarrow> int \<Rightarrow> string \<Rightarrow> error + Light" where
  "Bridge_light b lightId lightName =
     (if lightId = 0 \<and> lightName = [] then Inl SelectorError
      else if lightId = 0 then
        (case find (\<lambda>light. py_eq_str (l_name light) lightName) (dict_values (b_lights b)) of
           Some light \<Rightarrow> Inr light
         | None \<Rightarrow> Inl NoSuchLight)
      else
        (case dict_get (b_lights b) lightId of
           None \<Rightarrow> Inl NoSuchLight
         | Some light \<Rightarrow> Inr light))"

definition Bridge_group :: "Bridge \<Rightarrow> int \<Rightarrow> string \<Rightarrow> error + Group" where
  "Bridge_group b groupId groupName =
     (if groupName \<noteq> [] then
        (case find (\<lambda>g. py_eq_str (g_name g) groupName) (dict_values (b_groups b)) of
           Some g \<Rightarrow> Inr g
         | None \<Rightarrow> Inl NoSuchGroup)
      else
        (case dict_get (b_groups b) groupId of
           None \<Rightarrow> Inl NoSuchGroup
         | Some g \<Rightarrow> Inr g))"

definition Bridge_scene :: "Bridge \<Rightarrow> string \<Rightarrow> string \<Rightarrow> error + Scene" where
  "Bridge_scene b sceneId sceneName =
     (if sceneId = [] \<and> sceneName = [] then Inl SelectorError
      else if sceneId = [] then
        (case find (\<lambda>scene. py_eq_str (s_name scene) sceneName) (dict_values (b_scenes b)) of
           Some scene \<Rightarrow> Inr scene
         | None \<Rightarrow> Inl NoSuchScene)
      else
        (case dict_get (b_scenes b) sceneId of
           None \<Rightarrow> Inl NoSuchScene
         | Some scene \<Rightarrow> Inr scene))"

section \<open>Loading the registry\<close>

text \<open>
  A \<^verbatim>\<open>for\<close> loop whose body may raise: the exception ends the loop, and the state
  reached so far stays (the dictionaries are updated in place).
\<close>

fun for_each :: "('a \<Rightarrow> 's \<Rightarrow> (error + unit) \<times> 's) \<Rightarrow> 'a list \<Rightarrow> 's \<Rightarrow> (error + unit) \<times> 's" where
  "for_each f [] s = (Inr (), s)"
| "for_each f (x # xs) s =
     (case f x s of
        (Inl e, s') \<Rightarrow> (Inl e, s')
      | (Inr u, s') \<Rightarrow> for_each f xs s')"

text \<open>
  The synthetic group 0: \<^verbatim>\<open>Group()\<close>, \<^verbatim>\<open>init(0, self)\<close>, then the name and the state
  are assigned.
\<close>

definition everywhere :: Group where
  "everywhere =
     \<lparr> g_name = JStr ''everywhere'',
       g_lights = JList [],
       g_sensors = JList [],
       g_type = JStr [],
       g_state = JObj [(''all_on'', JBool False), (''any_on'', JBool False)],
       g_recycle = JBool False,
       g_action = JObj [],
       g_clazz = JStr [],
       g_stream = JObj [],
       g_locations = JObj [],
       g_id = 0,
       g_bridge = True,
       g_myScenes = JList [] \<rparr>"

text \<open>\<^verbatim>\<open>if 'class' in data: data['clazz'] = data.pop('class')\<close>\<close>

fun rename_class :: "json \<Rightarrow> error + json" where
  "rename_class (JObj d) =
     (case dict_get d ''class'' of
        None \<Rightarrow> Inr (JObj d)
      | Some v \<Rightarrow> Inr (JObj (dict_set ''clazz'' v (dict_del ''class'' d))))"
| "rename_class (JList xs) = (if JStr ''class'' \<in> set xs then Inl TypeError else Inr (JList xs))"
| "rename_class (JStr s) = (if sublist ''class'' s then Inl AttributeError else Inr (JStr s))"
| "rename_class _ = Inl TypeError"

text \<open>The body of the loop over the groups of the bridge's answer.\<close>

definition load_group :: "string \<times> json \<Rightarrow> Bridge \<Rightarrow> (error + unit) \<times> Bridge" where
  "load_group item b =
     (case rename_class (snd item) of
        Inl e \<Rightarrow> (Inl e, b)
      | Inr data \<Rightarrow>
     (case int_of_str (fst item) of
        Inl e \<Rightarrow> (Inl e, b)
      | Inr groupId \<Rightarrow>
     (case Group_new data of
        Inl e \<Rightarrow> (Inl e, b)
      | Inr g \<Rightarrow>
     (case Group_init groupId g of
        Inl e \<Rightarrow> (Inl e, b)
      | Inr g' \<Rightarrow> (Inr (), b\<lparr>b_groups := dict_set groupId g' (b_groups b)\<rparr>)))))"

text \<open>The body of the loop over the lights.\<close>

definition load_light :: "string \<times> json \<Rightarrow> Bridge \<Rightarrow> (error + unit) \<times> Bridge" where
  "load_light item b =
     (case int_of_str (fst item) of
        Inl e \<Rightarrow> (Inl e, b)
      | Inr lightId \<Rightarrow>
     (case Light_new (snd item) of
        Inl e \<Rightarrow> (Inl e, b)
      | Inr l \<Rightarrow>
     (case Light_init lightId l of
        Inl e \<Rightarrow> (Inl e, b)
      | Inr l' \<Rightarrow> (Inr (), b\<lparr>b_lights := dict_set lightId l' (b_lights b)\<rparr>))))"

text \<open>
  \<^verbatim>\<open>try: self.group(int(data['group'])).myScenes.append(sceneId)\<close>
  \<^verbatim>\<open>except NoSuchGroup: pass\<close>.
  The group found is the object stored under the id, so the append changes that entry.
\<close>

definition link_group :: "string \<Rightarrow> json \<Rightarrow> Bridge \<Rightarrow> (error + unit) \<times> Bridge" where
  "link_group sceneId data b =
     (case py_getitem data ''group'' of
        Inl e \<Rightarrow> (Inl e, b)
      | Inr gv \<Rightarrow>
     (case py_int gv of
        Inl e \<Rightarrow> (Inl e, b)
      | Inr groupId \<Rightarrow>
     (case Bridge_group b groupId [] of
        Inl e \<Rightarrow> if e = NoSuchGroup then (Inr (), b) else (Inl e, b)
      | Inr g \<Rightarrow>
     (case py_append (g_myScenes g) (JStr sceneId) of
        Inl e \<Rightarrow> (Inl e, b)
      | Inr ms \<Rightarrow>
          (Inr (), b\<lparr>b_groups := dict_set groupId (g\<lparr>g_myScenes := ms\<rparr>) (b_groups b)\<rparr>)))))"

text \<open>
  \<^verbatim>\<open>try: self.light(int(lightId)).myScenes.append(sceneId)\<close>
  \<^verbatim>\<open>except NoSuchLight: pass\<close>,
  the body of the loop over \<^verbatim>\<open>data['lights']\<close>.
\<close>

definition link_light :: "string \<Rightarrow> json \<Rightarrow> Bridge \<Rightarrow> (error + unit) \<times> Bridge" where
  "link_light sceneId lightId b =
     (case py_int lightId of
        Inl e \<Rightarrow> (Inl e, b)
      | Inr lid \<Rightarrow>
     (case Bridge_light b lid [] of
        Inl e \<Rightarrow> if e = NoSuchLight then (Inr (), b) else (Inl e, b)
      | Inr l \<Rightarrow>
     (case py_append (l_myScenes l) (JStr sceneId) of
        Inl e \<Rightarrow> (Inl e, b)
      | Inr ms \<Rightarrow>
          (Inr (), b\<lparr>b_lights := dict_set lid (l\<lparr>l_myScenes := ms\<rparr>) (b_lights b)\<rparr>))))"

text \<open>The cross-linking of one scene, after it is stored.\<close>

definition link_scene :: "string \<Rightarrow> json \<Rightarrow> Bridge \<Rightarrow> (error + unit) \<times> Bridge" where
  "link_scene sceneId data b =
     (case py_contains ''type'' data of
        Inl e \<Rightarrow> (Inl e, b)
      | Inr has_type \<Rightarrow>
          if \<not> has_type then (Inr (), b)
          else
     (case py_getitem data ''type'' of
        Inl e \<Rightarrow> (Inl e, b)
      | Inr t \<Rightarrow>
          if py_eq_str t ''GroupScene'' then link_group sceneId data b
          else if py_eq_str t ''LightScene'' then
            (case py_getitem data ''name'' of
               Inl e \<Rightarrow> (Inl e, b)
             | Inr n \<Rightarrow>
                 if \<not> py_eq_str n ''Last on state'' then
                   (case py_getitem data ''lights'' of
                      Inl e \<Rightarrow> (Inl e, b)
                    | Inr ls \<Rightarrow>
                   (case py_iter ls of
                      Inl e \<Rightarrow> (Inl e, b)
                    | Inr ids \<Rightarrow> for_each (link_light sceneId) ids b))
                 else (Inr (), b))
          else (Inr (), b)))"

text \<open>The body of the loop over the scenes.\<close>

definition load_scene :: "string \<times> json \<Rightarrow> Bridge \<Rightarrow> (error + unit) \<times> Bridge" where
  "load_scene item b =
     (case Scene_new (snd item) of
        Inl e \<Rightarrow> (Inl e, b)
      | Inr s \<Rightarrow>
     (case Scene_init (fst item) s of
        Inl e \<Rightarrow> (Inl e, b)
      | Inr s' \<Rightarrow>
          link_scene (fst item) (snd item)
            (b\<lparr>b_scenes := dict_set (fst item) s' (b_scenes b)\<rparr>)))"

text \<open>\<^verbatim>\<open>answer = req.json()\<close>, then the loop over \<^verbatim>\<open>answer.items()\<close>.\<close>

definition load_items ::
  "(string \<times> json \<Rightarrow> Bridge \<Rightarrow> (error + unit) \<times> Bridge) \<Rightarrow> response \<Rightarrow> Bridge
     \<Rightarrow> (error + unit) \<times> Bridge" where
  "load_items body r b =
     (case r_json r of
        Inl e \<Rightarrow> (Inl e, b)
      | Inr answer \<Rightarrow>
     (case py_items answer of
        Inl e \<Rightarrow> (Inl e, b)
      | Inr items \<Rightarrow> for_each body items b))"

text \<open>
  \<^verbatim>\<open>Bridge.loadDevices\<close>. The three mappings are never cleared: group 0 is assigned,
  then each fetched entry is assigned under its id. The scenes are fetched when the
  response to the lights request is truthy, and their response is decoded unchecked.
\<close>

definition load_scenes_part :: "network \<Rightarrow> response option \<Rightarrow> Bridge \<Rightarrow> (error + unit) \<times> Bridge" where
  "load_scenes_part net lights_req b =
     (if resp_truthy lights_req then
        (case sendAuthRequest net ''/scenes'' None ''GET'' False b of
           (Inl e, b') \<Rightarrow> (Inl e, b')
         | (Inr None, b') \<Rightarrow> (Inl AttributeError, b')
         | (Inr (Some r), b') \<Rightarrow> load_items load_scene r b')
      else (Inr (), b))"

definition load_lights_part :: "network \<Rightarrow> Bridge \<Rightarrow> (error + unit) \<times> Bridge" where
  "load_lights_part net b =
     (case sendAuthRequest net ''/lights'' None ''GET'' False b of
        (Inl e, b') \<Rightarrow> (Inl e, b')
      | (Inr req, b') \<Rightarrow>
          (case (case req of
                   Some r \<Rightarrow> if r_ok r then load_items load_light r b' else (Inr (), b')
                 | None \<Rightarrow> (Inr (), b')) of
             (Inl e, b'') \<Rightarrow> (Inl e, b'')
           | (Inr u, b'') \<Rightarrow> load_scenes_part net req b''))"

definition load_groups_part :: "network \<Rightarrow> Bridge \<Rightarrow> (error + unit) \<times> Bridge" where
  "load_groups_part net b =
     (case sendAuthRequest net ''/groups'' None ''GET'' False b of
        (Inl e, b') \<Rightarrow> (Inl e, b')
      | (Inr req, b') \<Rightarrow>
          (case req of
             Some r \<Rightarrow> if r_ok r then load_items load_group r b' else (Inr (), b')
           | None \<Rightarrow> (Inr (), b')))"

definition loadDevices :: "network \<Rightarrow> Bridge \<Rightarrow> (error + unit) \<times> Bridge" where
  "loadDevices net b =
     (case load_groups_part net (b\<lparr>b_groups := dict_set 0 everywhere (b_groups b)\<rparr>) of
        (Inl e, b') \<Rightarrow> (Inl e, b')
      | (Inr u, b') \<Rightarrow> load_lights_part net b')"

section \<open>The methods of a light\<close>

text \<open>
  A method of a light takes the light and the bridge it refers to. A method that only
  sends returns its outcome and the bridge; a setter also returns the light, whose cached
  state it may have changed before the outcome was known.
\<close>

definition Light_reachable :: "Light \<Rightarrow> error + json" where
  "Light_reachable l = py_getitem (l_state l) ''reachable''"

definition Light_request ::
  "network \<Rightarrow> string \<Rightarrow> dict option \<Rightarrow> string \<Rightarrow> Light \<Rightarrow> Bridge \<Rightarrow> (error + unit) \<times> Bridge" where
  "Light_request net url data method l b =
     (case Light_reachable l of
        Inl e \<Rightarrow> (Inl e, b)
      | Inr r \<Rightarrow>
          if \<not> py_truthy r \<or> \<not> l_bridge l then (Inl LightNotReachable, b)
          else
            (case sendAuthRequest net (''/lights'' @ slash url @ url) data method False b of
               (Inl e, b') \<Rightarrow> (Inl e, b')
             | (Inr resp, b') \<Rightarrow> (Inr (), b')))"

text \<open>\<^verbatim>\<open>f'/{self.id}/state'\<close> and \<^verbatim>\<open>f'/{self.id}'\<close>\<close>

definition Light_state_url :: "Light \<Rightarrow> string" where
  "Light_state_url l = ''/'' @ str_int (l_id l) @ ''/state''"

definition Light_url :: "Light \<Rightarrow> string" where
  "Light_url l = ''/'' @ str_int (l_id l)"

definition Light_on :: "network \<Rightarrow> Light \<Rightarrow> Bridge \<Rightarrow> (error + unit) \<times> Bridge" where
  "Light_on net l b = Light_request net (Light_state_url l) (Some [(''on'', JBool True)]) ''PUT'' l b"

definition Light_off :: "network \<Rightarrow> Light \<Rightarrow> Bridge \<Rightarrow> (error + unit) \<times> Bridge" where
  "Light_off net l b = Light_request net (Light_state_url l) (Some [(''on'', JBool False)]) ''PUT'' l b"

definition Light_alert :: "network \<Rightarrow> string \<Rightarrow> Light \<Rightarrow> Bridge \<Rightarrow> (error + unit) \<times> Bridge" where
  "Light_alert net state l b =
     Light_request net (Light_state_url l) (Some [(''alert'', JStr state)]) ''PUT'' l b"

definition Light_effect :: "network \<Rightarrow> string \<Rightarrow> Light \<Rightarrow> Bridge \<Rightarrow> (error + unit) \<times> Bridge" where
  "Light_effect net effect l b =
     Light_request net (Light_state_url l) (Some [(''effect'', JStr effect)]) ''PUT'' l b"

definition Light_delete :: "network \<Rightarrow> Light \<Rightarrow> Bridge \<Rightarrow> (error + unit) \<times> Bridge" where
  "Light_delete net l b = Light_request net (Light_url l) None ''DELETE'' l b"

text \<open>
  The pattern of the setters: \<^verbatim>\<open>self.state[key] = v\<close>, then the PUT of
  \<^verbatim>\<open>{key: sent}\<close>.
\<close>

definition Light_cache_then_put ::
  "network \<Rightarrow> string \<Rightarrow> json \<Rightarrow> json \<Rightarrow> Light \<Rightarrow> Bridge \<Rightarrow> (error + unit) \<times> Light \<times> Bridge" where
  "Light_cache_then_put net key v sent l b =
     (case py_setitem (l_state l) key v of
        Inl e \<Rightarrow> (Inl e, l, b)
      | Inr st \<Rightarrow>
          (let l' = l\<lparr>l_state := st\<rparr> in
           case Light_request net (Light_state_url l') (Some [(key, sent)]) ''PUT'' l' b of
             (r, b') \<Rightarrow> (r, l', b')))"

text \<open>The getter \<^verbatim>\<open>brightness\<close>: \<^verbatim>\<open>self.state['bri']\<close>.\<close>

definition Light_brightness :: "Light \<Rightarrow> error + json" where
  "Light_brightness l = py_getitem (l_state l) ''bri''"

definition Light_set_brightness ::
  "network \<Rightarrow> int \<Rightarrow> Light \<Rightarrow> Bridge \<Rightarrow> (error + unit) \<times> Light \<times> Bridge" where
  "Light_set_brightness net value l b =
     (if value = 0 then
        (case Light_off net l b of
           (Inl e, b') \<Rightarrow> (Inl e, l, b')
         | (Inr u, b') \<Rightarrow>
             (case py_setitem (l_state l) ''bri'' (JInt 0) of
                Inl e \<Rightarrow> (Inl e, l, b')
              | Inr st \<Rightarrow> (Inr (), l\<lparr>l_state := st\<rparr>, b')))
      else
        (let v = sorted_mid 1 value 254
         in Light_cache_then_put net ''bri'' (JInt v) (JInt v) l b))"

definition Light_set_saturation ::
  "network \<Rightarrow> int \<Rightarrow> Light \<Rightarrow> Bridge \<Rightarrow> (error + unit) \<times> Light \<times> Bridge" where
  "Light_set_saturation net value l b =
     (let v = sorted_mid 1 value 254
      in Light_cache_then_put net ''sat'' (JInt v) (JInt v) l b)"

definition Light_set_hue ::
  "network \<Rightarrow> int \<Rightarrow> Light \<Rightarrow> Bridge \<Rightarrow> (error + unit) \<times> Light \<times> Bridge" where
  "Light_set_hue net value l b =
     (let v = sorted_mid 0 value 65535
      in Light_cache_then_put net ''hue'' (JInt v) (JInt v) l b)"

definition nth_item :: "json list \<Rightarrow> nat \<Rightarrow> error + json" where
  "nth_item xs i = (if i < length xs then Inr (xs ! i) else Inl IndexError)"

text \<open>
  The \<^verbatim>\<open>xy\<close> setter: \<^verbatim>\<open>x\<close> and \<^verbatim>\<open>y\<close> are clamped and cached, and the request carries
  \<^verbatim>\<open>{'xy': value}\<close>, the list as it was assigned.
\<close>

definition Light_set_xy ::
  "network \<Rightarrow> json list \<Rightarrow> Light \<Rightarrow> Bridge \<Rightarrow> (error + unit) \<times> Light \<times> Bridge" where
  "Light_set_xy net value l b =
     (case nth_item value 0 of
        Inl e \<Rightarrow> (Inl e, l, b)
      | Inr v0 \<Rightarrow>
     (case py_sorted_mid (JInt 0) v0 (JInt 1) of
        Inl e \<Rightarrow> (Inl e, l, b)
      | Inr x \<Rightarrow>
     (case nth_item value 1 of
        Inl e \<Rightarrow> (Inl e, l, b)
      | Inr v1 \<Rightarrow>
     (case py_sorted_mid (JInt 0) v1 (JInt 1) of
        Inl e \<Rightarrow> (Inl e, l, b)
      | Inr y \<Rightarrow> Light_cache_then_put net ''xy'' (JList [x, y]) (JList value) l b))))"

definition Light_set_mired ::
  "network \<Rightarrow> int \<Rightarrow> Light \<Rightarrow> Bridge \<Rightarrow> (error + unit) \<times> Light \<times> Bridge" where
  "Light_set_mired net value l b = Light_cache_then_put net ''ct'' (JInt value) (JInt value) l b"

text \<open>\<^verbatim>\<open>self.logger.logWarning(...)\<close>: the class's logger logs; a value put in its place has no such method.\<close>

definition logWarning :: "Light \<Rightarrow> error + unit" where
  "logWarning l = (case l_logger l of None \<Rightarrow> Inr () | Some j \<Rightarrow> Inl AttributeError)"

definition Light_set_colormode ::
  "network \<Rightarrow> string \<Rightarrow> Light \<Rightarrow> Bridge \<Rightarrow> (error + unit) \<times> Light \<times> Bridge" where
  "Light_set_colormode net mode l b =
     (case py_contains ''colormode'' (l_state l) of
        Inl e \<Rightarrow> (Inl e, l, b)
      | Inr has \<Rightarrow>
          if \<not> has then
            (case logWarning l of Inl e \<Rightarrow> (Inl e, l, b) | Inr u \<Rightarrow> (Inr (), l, b))
          else if mode \<notin> {''hs'', ''xy'', ''ct''} then
            (case logWarning l of
               Inl e \<Rightarrow> (Inl e, l, b)
             | Inr u \<Rightarrow> Light_cache_then_put net ''colormode'' (JStr ''ct'') (JStr ''ct'') l b)
          else Light_cache_then_put net ''colormode'' (JStr mode) (JStr mode) l b)"

section \<open>The methods of a group\<close>

definition Group_request ::
  "network \<Rightarrow> string \<Rightarrow> dict option \<Rightarrow> string \<Rightarrow> Group \<Rightarrow> Bridge
     \<Rightarrow> (error + response option) \<times> Bridge" where
  "Group_request net url data method g b =
     (if \<not> g_bridge g then (Inr None, b)
      else sendAuthRequest net (''/groups'' @ slash url @ url) data method False b)"

definition Group_action_url :: "Group \<Rightarrow> string" where
  "Group_action_url g = ''/'' @ str_int (g_id g) @ ''/action''"

definition Group_url :: "Group \<Rightarrow> string" where
  "Group_url g = ''/'' @ str_int (g_id g)"

text \<open>\<^verbatim>\<open>on\<close> and \<^verbatim>\<open>off\<close> set both aggregate flags, then send.\<close>

definition Group_switch :: "network \<Rightarrow> bool \<Rightarrow> Group \<Rightarrow> Bridge \<Rightarrow> (error + unit) \<times> Group \<times> Bridge" where
  "Group_switch net v g b =
     (case py_setitem (g_state g) ''any_on'' (JBool v) of
        Inl e \<Rightarrow> (Inl e, g, b)
      | Inr st \<Rightarrow>
     (case py_setitem st ''all_on'' (JBool v) of
        Inl e \<Rightarrow> (Inl e, g\<lparr>g_state := st\<rparr>, b)
      | Inr st' \<Rightarrow>
          (let g' = g\<lparr>g_state := st'\<rparr> in
           case Group_request net (Group_action_url g') (Some [(''on'', JBool v)]) ''PUT'' g' b of
             (Inl e, b') \<Rightarrow> (Inl e, g', b')
           | (Inr resp, b') \<Rightarrow> (Inr (), g', b'))))"

definition Group_on :: "network \<Rightarrow> Group \<Rightarrow> Bridge \<Rightarrow> (error + unit) \<times> Group \<times> Bridge" where
  "Group_on net g b = Group_switch net True g b"

definition Group_off :: "network \<Rightarrow> Group \<Rightarrow> Bridge \<Rightarrow> (error + unit) \<times> Group \<times> Bridge" where
  "Group_off net g b = Group_switch net False g b"

text \<open>The getter \<^verbatim>\<open>brightness\<close> of a group: \<^verbatim>\<open>self.action['bri']\<close>.\<close>

definition Group_brightness :: "Group \<Rightarrow> error + json" where
  "Group_brightness g = py_getitem (g_action g) ''bri''"

definition Group_set_brightness ::
  "network \<Rightarrow> int \<Rightarrow> Group \<Rightarrow> Bridge \<Rightarrow> (error + unit) \<times> Group \<times> Bridge" where
  "Group_set_brightness net value g b =
     (if value = 0 then
        (case Group_off net g b of
           (Inl e, g', b') \<Rightarrow> (Inl e, g', b')
         | (Inr u, g', b') \<Rightarrow>
             (case py_setitem (g_action g') ''bri'' (JInt 0) of
                Inl e \<Rightarrow> (Inl e, g', b')
              | Inr act \<Rightarrow> (Inr (), g'\<lparr>g_action := act\<rparr>, b')))
      else
        (let v = sorted_mid 1 value 254 in
         case py_setitem (g_action g) ''bri'' (JInt v) of
           Inl e \<Rightarrow> (Inl e, g, b)
         | Inr act \<Rightarrow>
             (let g' = g\<lparr>g_action := act\<rparr> in
              case Group_request net (Group_action_url g') (Some [(''bri'', JInt v)]) ''PUT'' g' b of
                (Inl e, b') \<Rightarrow> (Inl e, g', b')
              | (Inr resp, b') \<Rightarrow> (Inr (), g', b'))))"

text \<open>
  \<^verbatim>\<open>Group.rename\<close>. The loop over the answers of the bridge returns at the first
  answer that acknowledges \<^verbatim>\<open>/groups/<id>/name\<close>.
\<close>

definition Group_name_key :: "Group \<Rightarrow> string" where
  "Group_name_key g = ''/groups/'' @ str_int (g_id g) @ ''/name''"

text \<open>
  The test of one answer,
  \<^verbatim>\<open>if not 'success' in answer or not key in answer['success']: continue\<close>,
  and the acknowledged value \<^verbatim>\<open>answer['success'][key]\<close> of an answer that passes it.
\<close>

definition acknowledged :: "string \<Rightarrow> json \<Rightarrow> error + json option" where
  "acknowledged key answer =
     (case py_contains ''success'' answer of
        Inl e \<Rightarrow> Inl e
      | Inr has_success \<Rightarrow>
          if \<not> has_success then Inr None
          else
     (case py_getitem answer ''success'' of
        Inl e \<Rightarrow> Inl e
      | Inr success \<Rightarrow>
     (case py_contains key success of
        Inl e \<Rightarrow> Inl e
      | Inr has_name \<Rightarrow>
          if \<not> has_name then Inr None
          else
     (case py_getitem success key of
        Inl e \<Rightarrow> Inl e
      | Inr acked \<Rightarrow> Inr (Some acked)))))"

fun rename_answers ::
  "network \<Rightarrow> string \<Rightarrow> bool \<Rightarrow> json list \<Rightarrow> Group \<Rightarrow> Bridge \<Rightarrow> (error + bool) \<times> Group \<times> Bridge" where
  "rename_answers net newName allowExistingName [] g b = (Inr False, g, b)"
| "rename_answers net newName allowExistingName (answer # rest) g b =
     (case acknowledged (Group_name_key g) answer of
        Inl e \<Rightarrow> (Inl e, g, b)
      | Inr None \<Rightarrow> rename_answers net newName allowExistingName rest g b
      | Inr (Some acked) \<Rightarrow>
          if py_eq_str acked newName then (Inr True, g\<lparr>g_name := JStr newName\<rparr>, b)
          else if allowExistingName then (Inr True, g\<lparr>g_name := acked\<rparr>, b)
          else
            (case Group_request net (Group_url g) (Some [(''name'', g_name g)]) ''PUT'' g b of
               (Inl e, b') \<Rightarrow> (Inl e, g, b')
             | (Inr resp, b') \<Rightarrow> (Inr False, g, b')))"

definition Group_rename ::
  "network \<Rightarrow> string \<Rightarrow> bool \<Rightarrow> Group \<Rightarrow> Bridge \<Rightarrow> (error + bool) \<times> Group \<times> Bridge" where
  "Group_rename net newName allowExistingName g b =
     (case Group_request net (Group_url g) (Some [(''name'', JStr newName)]) ''PUT'' g b of
        (Inl e, b') \<Rightarrow> (Inl e, g, b')
      | (Inr None, b') \<Rightarrow> (Inr False, g, b')
      | (Inr (Some r), b') \<Rightarrow>
          if \<not> r_ok r then (Inr False, g, b')
          else
     (case r_json r of
        Inl e \<Rightarrow> (Inl e, g, b')
      | Inr body \<Rightarrow>
     (case py_iter body of
        Inl e \<Rightarrow> (Inl e, g, b')
      | Inr answers \<Rightarrow> rename_answers net newName allowExistingName answers g b')))"

section \<open>Construction, registration and connection\<close>

definition loadConfigFileData :: "Bridge \<Rightarrow> json option" where
  "loadConfigFileData b = (case b_confFile b of Stored j \<Rightarrow> Some j | _ \<Rightarrow> None)"

definition saveConfigFile :: "Bridge \<Rightarrow> Bridge" where
  "saveConfigFile b =
     b\<lparr>b_confFile :=
         Stored (JObj [(''ip'', case b_ip b of None \<Rightarrow> JNull | Some s \<Rightarrow> JStr s),
                       (''username'', JStr (b_username b))])\<rparr>"

text \<open>\<^verbatim>\<open>self._confFile.unlink()\<close>: a missing file raises.\<close>

definition unlink :: "Bridge \<Rightarrow> (error + unit) \<times> Bridge" where
  "unlink b =
     (case b_confFile b of
        Missing \<Rightarrow> (Inl FileNotFoundError, b)
      | _ \<Rightarrow> (Inr (), b\<lparr>b_confFile := Missing\<rparr>))"

text \<open>The truth value of an optional string, and of a string.\<close>

definition opt_truthy :: "string option \<Rightarrow> bool" where
  "opt_truthy ip = (case ip of None \<Rightarrow> False | Some s \<Rightarrow> s \<noteq> [])"

text \<open>
  \<^verbatim>\<open>ip != conf['ip']\<close> for the optional string of the constructor, known to be truthy
  where the comparison is made.
\<close>

definition opt_neq :: "string option \<Rightarrow> json \<Rightarrow> bool" where
  "opt_neq ip v = (case ip of None \<Rightarrow> v \<noteq> JNull | Some s \<Rightarrow> \<not> py_eq_str v s)"

text \<open>
  The first statement of the constructor's \<^verbatim>\<open>if conf:\<close> block:
  \<^verbatim>\<open>if ip and ip != conf['ip']: unlink\<close>, \<^verbatim>\<open>elif not ip: self._ip = conf['ip']\<close>.
\<close>

definition init_ip :: "string option \<Rightarrow> json \<Rightarrow> Bridge \<Rightarrow> (error + unit) \<times> Bridge" where
  "init_ip ip conf b =
     (case py_getitem conf ''ip'' of
        Inl e \<Rightarrow> (Inl e, b)
      | Inr stored \<Rightarrow>
          if opt_truthy ip then
            (if opt_neq ip stored then unlink b else (Inr (), b))
          else
            (case stored of
               JStr s \<Rightarrow> (Inr (), b\<lparr>b_ip := Some s\<rparr>)
             | JNull \<Rightarrow> (Inr (), b\<lparr>b_ip := None\<rparr>)
             | _ \<Rightarrow> (Inl Unmodelled, b)))"

text \<open>
  The second statement: \<^verbatim>\<open>if username and username != conf['ip']: unlink\<close>,
  \<^verbatim>\<open>elif not username: self._username = conf['username']\<close>. The supplied username is
  compared with the stored \<^verbatim>\<open>'ip'\<close>.
\<close>

definition init_username :: "string \<Rightarrow> json \<Rightarrow> Bridge \<Rightarrow> (error + unit) \<times> Bridge" where
  "init_username username conf b =
     (if username \<noteq> [] then
        (case py_getitem conf ''ip'' of
           Inl e \<Rightarrow> (Inl e, b)
         | Inr stored \<Rightarrow> if \<not> py_eq_str stored username then unlink b else (Inr (), b))
      else
        (case py_getitem conf ''username'' of
           Inl e \<Rightarrow> (Inl e, b)
         | Inr stored \<Rightarrow>
             (case stored of
                JStr s \<Rightarrow> (Inr (), b\<lparr>b_username := s\<rparr>)
              | _ \<Rightarrow> (Inl Unmodelled, b))))"

text \<open>
  \<^verbatim>\<open>Bridge.__init__\<close>, given the state of the config file. An exception leaves no
  object; the bridge returned beside it carries the state of the file.
\<close>

definition Bridge_init ::
  "string option \<Rightarrow> string \<Rightarrow> string \<Rightarrow> conf_file \<Rightarrow> (error + unit) \<times> Bridge" where
  "Bridge_init ip deviceName username confFile =
     (let b = \<lparr> b_ip = ip, b_deviceName = deviceName, b_confFile = confFile,
                 b_username = username, b_connected = False,
                 b_groups = [], b_lights = [], b_scenes = [], b_sent = [] \<rparr>
      in case loadConfigFileData b of
           None \<Rightarrow> (Inr (), b)
         | Some conf \<Rightarrow>
             if \<not> py_truthy conf then (Inr (), b)
             else
               (case init_ip ip conf b of
                  (Inl e, b') \<Rightarrow> (Inl e, b')
                | (Inr u, b') \<Rightarrow> init_username username conf b'))"

text \<open>\<^verbatim>\<open>isinstance(answer, list) and key in answer[0]\<close>\<close>

fun list_and_first_has :: "string \<Rightarrow> json \<Rightarrow> error + bool" where
  "list_and_first_has key (JList xs) =
     (case py_first (JList xs) of
        Inl e \<Rightarrow> Inl e
      | Inr a \<Rightarrow> py_contains key a)"
| "list_and_first_has key _ = Inr False"

definition errorReturned :: "json \<Rightarrow> error + bool" where
  "errorReturned answer = list_and_first_has ''error'' answer"

definition successReturned :: "json \<Rightarrow> error + bool" where
  "successReturned answer = list_and_first_has ''success'' answer"

text \<open>
  \<^verbatim>\<open>Bridge.isPhueBridge\<close>: every exception of the probe is caught and answered
  \<^verbatim>\<open>False\<close>.
\<close>

definition isPhueBridge :: "network \<Rightarrow> json \<Rightarrow> Bridge \<Rightarrow> (error + bool) \<times> Bridge" where
  "isPhueBridge net ip b =
     (if \<not> py_truthy ip then (Inr False, b)
      else
        (case ip of
           JStr s \<Rightarrow>
             (case http net \<lparr>rq_method = ''GET'', rq_url = ''http://'' @ s @ ''/api/config'',
                             rq_data = JNull\<rparr> b of
                (None, b') \<Rightarrow> (Inr False, b')
              | (Some r, b') \<Rightarrow>
                  (case r_json r of
                     Inl e \<Rightarrow> (Inr False, b')
                   | Inr data \<Rightarrow>
                  (case py_contains ''swversion'' data of
                     Inl e \<Rightarrow> (Inr False, b')
                   | Inr has_sw \<Rightarrow>
                       if \<not> has_sw then (Inr False, b')
                       else
                  (case py_contains ''bridgeid'' data of
                     Inl e \<Rightarrow> (Inr False, b')
                   | Inr has_id \<Rightarrow> (Inr has_id, b')))))
         | _ \<Rightarrow> (Inl Unmodelled, b)))"

text \<open>
  \<^verbatim>\<open>Bridge.autodiscover\<close>: the loop over the candidates, then the request that feeds
  it. A transport failure and a body that is no JSON are caught and logged.
\<close>

fun probe_devices :: "network \<Rightarrow> json list \<Rightarrow> Bridge \<Rightarrow> (error + unit) \<times> Bridge" where
  "probe_devices net [] b = (Inl NoPhueBridgeFound, b)"
| "probe_devices net (device # rest) b =
     (case py_getitem device ''internalipaddress'' of
        Inl e \<Rightarrow> (Inl e, b)
      | Inr ip \<Rightarrow>
     (case isPhueBridge net ip b of
        (Inl e, b') \<Rightarrow> (Inl e, b')
      | (Inr is_bridge, b') \<Rightarrow>
          if is_bridge then
            (case ip of
               JStr s \<Rightarrow> (Inr (), saveConfigFile (b'\<lparr>b_ip := Some s\<rparr>))
             | _ \<Rightarrow> (Inl Unmodelled, b'))
          else probe_devices net rest b'))"

definition autodiscover :: "network \<Rightarrow> Bridge \<Rightarrow> (error + unit) \<times> Bridge" where
  "autodiscover net b =
     (case http net \<lparr>rq_method = ''GET'', rq_url = ''https://discovery.meethue.com/'',
                     rq_data = JNull\<rparr> b of
        (None, b') \<Rightarrow> (Inr (), b')
      | (Some r, b') \<Rightarrow>
          (case r_json r of
             Inl e \<Rightarrow> (Inr (), b')
           | Inr devices \<Rightarrow>
          (case py_iter devices of
             Inl e \<Rightarrow> (Inl e, b')
           | Inr ds \<Rightarrow> probe_devices net ds b')))"

text \<open>The first \<^verbatim>\<open>try\<close> block of \<^verbatim>\<open>Bridge.connect\<close>.\<close>

definition connect_probe :: "network \<Rightarrow> bool \<Rightarrow> Bridge \<Rightarrow> (error + unit) \<times> Bridge" where
  "connect_probe net autodisc b =
     (case (if \<not> opt_truthy (b_ip b) \<and> autodisc then autodiscover net b
            else if \<not> opt_truthy (b_ip b) \<and> \<not> autodisc then (Inl NoPhueIP, b)
            else (Inr (), b)) of
        (Inl e, b1) \<Rightarrow> (Inl e, b1)
      | (Inr u, b1) \<Rightarrow>
          if b_username b1 = [] then (Inl UnauthorizedUser, b1)
          else
     (case sendRequest net (Some (''/'' @ b_username b1)) None ''GET'' False b1 of
        (Inl e, b2) \<Rightarrow> (Inl e, b2)
      | (Inr req, b2) \<Rightarrow>
     (case req of
        None \<Rightarrow> (Inl OSError, b2)
      | Some r \<Rightarrow>
          if \<not> r_ok r then (Inl OSError, b2)
          else
     (case r_json r of
        Inl e \<Rightarrow> (Inl e, b2)
      | Inr answer \<Rightarrow>
     (case errorReturned answer of
        Inl e \<Rightarrow> (Inl e, b2)
      | Inr is_error \<Rightarrow>
          if is_error then (Inl UnauthorizedUser, b2)
          else (Inr (), b2\<lparr>b_connected := True\<rparr>))))))"

text \<open>
  \<^verbatim>\<open>Bridge.connect\<close>: the handlers re-raise UnauthorizedUser, NoPhueIP and
  NoPhueBridgeFound and answer every other exception with \<^verbatim>\<open>False\<close>; an exception
  of \<^verbatim>\<open>loadDevices\<close> is logged.
\<close>

definition connect :: "network \<Rightarrow> bool \<Rightarrow> Bridge \<Rightarrow> (error + bool) \<times> Bridge" where
  "connect net autodisc b =
     (case connect_probe net autodisc b of
        (Inl e, b') \<Rightarrow>
          if e \<in> {UnauthorizedUser, NoPhueIP, NoPhueBridgeFound, Unmodelled} then (Inl e, b')
          else (Inr False, b')
      | (Inr u, b') \<Rightarrow>
          (case loadDevices net b' of (r, b'') \<Rightarrow> (Inr True, b'')))"

text \<open>The \<^verbatim>\<open>try\<close> block of \<^verbatim>\<open>Bridge.register\<close>, and the method with its handlers.\<close>

definition register_try :: "network \<Rightarrow> bool \<Rightarrow> Bridge \<Rightarrow> (error + bool) \<times> Bridge" where
  "register_try net saveConnection b =
     (case sendRequest net None (Some [(''devicetype'', JStr (''phueAPI#'' @ b_deviceName b))])
             ''POST'' False b of
        (Inl e, b') \<Rightarrow> (Inl e, b')
      | (Inr req, b') \<Rightarrow>
     (case req of
        None \<Rightarrow> (Inl PhueRegistrationError, b')
      | Some r \<Rightarrow>
          if \<not> r_ok r then (Inl PhueRegistrationError, b')
          else
     (case r_json r of
        Inl e \<Rightarrow> (Inl e, b')
      | Inr answer \<Rightarrow>
     (case errorReturned answer of
        Inl e \<Rightarrow> (Inl e, b')
      | Inr is_error \<Rightarrow>
          if is_error then (Inl LinkButtonNotPressed, b')
          else
     (case successReturned answer of
        Inl e \<Rightarrow> (Inl e, b')
      | Inr is_success \<Rightarrow>
          if \<not> is_success then (Inl Exception, b')
          else if \<not> saveConnection then (Inr True, b')
          else
     (case py_first answer of
        Inl e \<Rightarrow> (Inl e, b')
      | Inr first \<Rightarrow>
     (case py_getitem first ''success'' of
        Inl e \<Rightarrow> (Inl e, b')
      | Inr success \<Rightarrow>
     (case py_getitem success ''username'' of
        Inl e \<Rightarrow> (Inl e, b')
      | Inr name \<Rightarrow>
          (case name of
             JStr s \<Rightarrow> (Inr True, saveConfigFile (b'\<lparr>b_username := s\<rparr>))
           | _ \<Rightarrow> (Inl Unmodelled, b'))))))))))"

definition register :: "network \<Rightarrow> bool \<Rightarrow> Bridge \<Rightarrow> (error + bool) \<times> Bridge" where
  "register net saveConnection b =
     (case register_try net saveConnection b of
        (Inl e, b') \<Rightarrow>
          if e = LinkButtonNotPressed \<or> e = Unmodelled then (Inl e, b')
          else (Inl PhueRegistrationError, b')
      | (Inr v, b') \<Rightarrow> (Inr v, b'))"

section \<open>Concrete sessions\<close>

text \<open>
  The inputs at which the properties below are run: a session at address 10.0.0.2 with
  the username \<open>abc\<close>, networks that fail, or answer every request with one body, and
  the payloads of a light, a group and a scene as a bridge reports them.
\<close>

definition demo_bridge :: Bridge where
  "demo_bridge =
     \<lparr> b_ip = Some ''10.0.0.2'', b_deviceName = ''phuepython'', b_confFile = Missing,
       b_username = ''abc'', b_connected = False,
       b_groups = [], b_lights = [], b_scenes = [], b_sent = [] \<rparr>"

definition net_down :: network where
  "net_down sent = None"

definition net_reply :: "json \<Rightarrow> network" where
  "net_reply body sent = Some \<lparr>r_ok = True, r_body = Some body\<rparr>"

definition light_data :: "string \<Rightarrow> bool \<Rightarrow> json" where
  "light_data name reachable =
     JObj [(''state'', JObj [(''on'', JBool True), (''bri'', JInt 100),
                             (''xy'', JList [JFloat (1 / 2), JFloat (1 / 2)]),
                             (''reachable'', JBool reachable)]),
           (''swupdate'', JObj []),
           (''type'', JStr ''Dimmable light''),
           (''name'', JStr name),
           (''modelid'', JStr ''LWB010''),
           (''manufacturername'', JStr ''Signify''),
           (''productname'', JStr ''Hue white lamp''),
           (''capabilities'', JObj []),
           (''config'', JObj []),
           (''uniqueid'', JStr ''00:17:88:01''),
           (''swversion'', JStr ''1.50'')]"

text \<open>The light that \<^verbatim>\<open>Light(**data)\<close> and \<^verbatim>\<open>init\<close> make of such a payload.\<close>

definition demo_light :: "int \<Rightarrow> string \<Rightarrow> bool \<Rightarrow> Light" where
  "demo_light lightId name reachable =
     \<lparr> l_state = JObj [(''on'', JBool True), (''bri'', JInt 100),
                       (''xy'', JList [JFloat (1 / 2), JFloat (1 / 2)]),
                       (''reachable'', JBool reachable)],
       l_swupdate = JObj [],
       l_type = JStr ''Dimmable light'',
       l_name = JStr name,
       l_modelid = JStr ''LWB010'',
       l_manufacturername = JStr ''Signify'',
       l_productname = JStr ''Hue white lamp'',
       l_capabilities = JObj [],
       l_config = JObj [],
       l_uniqueid = JStr ''00:17:88:01'',
       l_swversion = JStr ''1.50'',
       l_swconfigid = JStr [],
       l_productid = JStr [],
       l_id = lightId,
       l_bridge = True,
       l_myScenes = JList [],
       l_logger = None \<rparr>"

definition group_data :: "string \<Rightarrow> json" where
  "group_data name =
     JObj [(''name'', JStr name),
           (''lights'', JList [JStr ''1'']),
           (''type'', JStr ''Room''),
           (''state'', JObj [(''all_on'', JBool False), (''any_on'', JBool False)]),
           (''action'', JObj [(''on'', JBool False), (''bri'', JInt 100)]),
           (''class'', JStr ''Kitchen'')]"

definition demo_group :: "int \<Rightarrow> string \<Rightarrow> Group" where
  "demo_group groupId name =
     \<lparr> g_name = JStr name,
       g_lights = JList [JStr ''1''],
       g_sensors = JList [],
       g_type = JStr ''Room'',
       g_state = JObj [(''all_on'', JBool False), (''any_on'', JBool False)],
       g_recycle = JBool False,
       g_action = JObj [(''on'', JBool False), (''bri'', JInt 100)],
       g_clazz = JStr ''Kitchen'',
       g_stream = JObj [],
       g_locations = JObj [],
       g_id = groupId,
       g_bridge = True,
       g_myScenes = JList [] \<rparr>"

definition scene_data :: "string \<Rightarrow> string \<Rightarrow> json \<Rightarrow> json \<Rightarrow> json" where
  "scene_data name type lights grp =
     JObj [(''name'', JStr name),
           (''type'', JStr type),
           (''lights'', lights),
           (''owner'', JStr ''abc''),
           (''recycle'', JBool False),
           (''locked'', JBool False),
           (''appdata'', JObj []),
           (''picture'', JStr []),
           (''lastupdated'', JStr ''2020-01-01T00:00:00''),
           (''version'', JInt 2),
           (''group'', grp)]"

definition demo_scene :: "string \<Rightarrow> string \<Rightarrow> string \<Rightarrow> json \<Rightarrow> json \<Rightarrow> Scene" where
  "demo_scene sceneId name type lights grp =
     \<lparr> s_name = JStr name,
       s_type = JStr type,
       s_lights = lights,
       s_owner = JStr ''abc'',
       s_recycle = JBool False,
       s_locked = JBool False,
       s_appdata = JObj [],
       s_picture = JStr [],
       s_lastupdated = JStr ''2020-01-01T00:00:00'',
       s_version = JInt 2,
       s_image = JStr [],
       s_group = grp,
       s_id = sceneId,
       s_bridge = True \<rparr>"

text \<open>
  A bridge that answers the three fetches of \<^verbatim>\<open>loadDevices\<close> with its groups, its
  lights and its scenes, and everything else with an empty object.
\<close>

definition net_hue :: "json \<Rightarrow> json \<Rightarrow> json \<Rightarrow> network" where
  "net_hue grps lts scns sent =
     (case rev sent of
        [] \<Rightarrow> None
      | rq # earlier \<Rightarrow>
          Some \<lparr>r_ok = True,
                r_body = Some (if suffix ''/groups'' (rq_url rq) then grps
                               else if suffix ''/lights'' (rq_url rq) then lts
                               else if suffix ''/scenes'' (rq_url rq) then scns
                               else JObj [])\<rparr>)"

text \<open>A registry with two lights and two groups of the same name, besides group 0.\<close>

definition two_kitchens :: Bridge where
  "two_kitchens =
     demo_bridge
       \<lparr>b_groups := [(0, everywhere), (1, demo_group 1 ''kitchen''), (2, demo_group 2 ''kitchen'')],
        b_lights := [(1, demo_light 1 ''kitchen'' True), (2, demo_light 2 ''kitchen'' False)]\<rparr>"

text \<open>
  The session after \<^verbatim>\<open>loadDevices\<close> against a bridge that reports one group and one
  light, both named \<open>Kitchen\<close>.
\<close>

definition kitchen_bridge :: Bridge where
  "kitchen_bridge =
     snd (loadDevices
            (net_hue (JObj [(''1'', group_data ''Kitchen'')])
                     (JObj [(''1'', light_data ''Kitchen'' True)])
                     (JObj []))
            demo_bridge)"

text \<open>An unreachable light whose state has a colour mode.\<close>

definition colour_light :: Light where
  "colour_light =
     (demo_light 2 ''lamp'' False)
       \<lparr>l_state := JObj [(''colormode'', JStr ''ct''), (''reachable'', JBool False)]\<rparr>"

text \<open>
  The request that a method of a light or of a group hands to the HTTP library: the
  method, the URL that \<^verbatim>\<open>sendAuthRequest\<close> and \<^verbatim>\<open>sendRequest\<close> make of the entity's
  path, and the body.
\<close>

definition light_request :: "string \<Rightarrow> Light \<Rightarrow> Bridge \<Rightarrow> string \<Rightarrow> dict \<Rightarrow> request" where
  "light_request method l b url body =
     \<lparr>rq_method = method,
      rq_url = api_url b (Some (auth_path b (''/lights'' @ slash url @ url))),
      rq_data = JObj body\<rparr>"

definition group_request :: "string \<Rightarrow> Group \<Rightarrow> Bridge \<Rightarrow> string \<Rightarrow> dict \<Rightarrow> request" where
  "group_request method g b url body =
     \<lparr>rq_method = method,
      rq_url = api_url b (Some (auth_path b (''/groups'' @ slash url @ url))),
      rq_data = JObj body\<rparr>"

text \<open>
  The bridge's answer to a rename of group 1 that it settles as \<open>den\<close>: an answer without
  acknowledgment first, then the acknowledgment of the name.
\<close>

definition rename_reply :: json where
  "rename_reply =
     JList [JObj [(''error'', JObj [])],
            JObj [(''success'', JObj [(''/groups/1/name'', JStr ''den'')])]]"

text \<open>
  A bridge that answers the first request of the session with one body and is out of
  reach from then on.
\<close>

definition net_first :: "json \<Rightarrow> network" where
  "net_first body sent =
     (if length sent \<le> 1 then Some \<lparr>r_ok = True, r_body = Some body\<rparr> else None)"



text \<open>
  \<open>keeps b b'\<close>: every id of a group, a light or a scene of the registry of \<open>b\<close> is
  an id of the registry of \<open>b'\<close>.
\<close>

definition keeps :: "Bridge \<Rightarrow> Bridge \<Rightarrow> bool" where
  "keeps b b' =
     (set (map fst (b_groups b)) \<subseteq> set (map fst (b_groups b')) \<and>
      set (map fst (b_lights b)) \<subseteq> set (map fst (b_lights b')) \<and>
      set (map fst (b_scenes b)) \<subseteq> set (map fst (b_scenes b')))"

text \<open>
  The registry of lights after the scene \<open>sid\<close> is cross-linked to the light ids \<open>ks\<close>:
  every light has the scene id appended to its \<^verbatim>\<open>myScenes\<close> once for each time its id is
  referenced, and nothing else changes.
\<close>

fun is_list :: "json \<Rightarrow> bool" where
  "is_list (JList xs) = True"
| "is_list _ = False"

definition with_scene :: "string \<Rightarrow> nat \<Rightarrow> Light \<Rightarrow> Light" where
  "with_scene sid n l =
     l\<lparr>l_myScenes := (case l_myScenes l of
                          JList xs \<Rightarrow> JList (xs @ replicate n (JStr sid))
                        | j \<Rightarrow> j)\<rparr>"

definition linked :: "string \<Rightarrow> int list \<Rightarrow> (int \<times> Light) list \<Rightarrow> (int \<times> Light) list" where
  "linked sid ks ls = map (\<lambda>p. (fst p, with_scene sid (count_list ks (fst p)) (snd p))) ls"

section \<open>Facts about the builtins\<close>

lemma dict_get_dict_set:
  "dict_get (dict_set k v d) k' = (if k' = k then Some v else dict_get d k')"
  by (induction d) (auto simp: dict_get_def)



lemma dict_has_get: "dict_has k d = (dict_get d k \<noteq> None)"
  by (induction d) (auto simp: dict_has_def dict_get_def)

lemma map_fst_dict_set_present:
  "dict_has k d \<Longrightarrow> map fst (dict_set k v d) = map fst d"
  by (induction d) (force simp: dict_has_def)+

lemma sorted_mid_clamp:
  "lo \<le> hi \<Longrightarrow> sorted_mid lo x hi = (if x < lo then lo else if hi < x then hi else x)"
  by (auto simp: sorted_mid_def)

section \<open>The lookups and their selectors\<close>

text \<open>
  C3, as the code has it. \<^verbatim>\<open>light()\<close> and \<^verbatim>\<open>scene()\<close> called with neither an id
  nor a name raise the selector error, in every registry. \<^verbatim>\<open>group()\<close> has no such
  check: with no name it looks the id up, and the default id 0 is the id of the synthetic
  group. It returns the group stored under 0, or raises NoSuchGroup when there is none; it
  never raises the selector error.
\<close>

theorem lookup_without_selector:
  "Bridge_light b 0 [] = Inl SelectorError \<and>
   Bridge_scene b [] [] = Inl SelectorError \<and>
   Bridge_group b 0 [] =
     (case dict_get (b_groups b) 0 of None \<Rightarrow> Inl NoSuchGroup | Some g \<Rightarrow> Inr g) \<and>
   Bridge_group b 0 [] \<noteq> Inl SelectorError"
  by (simp add: Bridge_light_def Bridge_scene_def Bridge_group_def split: option.split)

text \<open>
  C3 as stated fails for \<^verbatim>\<open>group()\<close>: once \<^verbatim>\<open>loadDevices\<close> has run (here against a
  network that is down), \<^verbatim>\<open>group()\<close> without id and name returns the group
  "everywhere".
\<close>

theorem group_without_selector_returns_everywhere:
  "Bridge_group (snd (loadDevices net_down demo_bridge)) 0 [] = Inr everywhere"
  by code_simp

section \<open>The constructor and the stored config\<close>

text \<open>
  C2, run on the code. The stored config holds the address 10.0.0.2 and the username
  \<open>abc\<close>. A constructor call that supplies no address and the very username that is
  stored conflicts with nothing, and yet the file is removed: the constructor compares
  the supplied username with the stored \<^emph>\<open>address\<close>. With a supplied address that
  conflicts and a supplied username, the second removal meets a file already removed and
  the constructor raises.
\<close>

theorem init_removes_config_without_conflict:
  "Bridge_init None ''phuepython'' ''abc''
     (Stored (JObj [(''ip'', JStr ''10.0.0.2''), (''username'', JStr ''abc'')]))
   = (Inr (), demo_bridge) \<and>
   b_confFile demo_bridge = Missing \<and>
   fst (Bridge_init (Some ''10.0.0.9'') ''phuepython'' ''abc''
     (Stored (JObj [(''ip'', JStr ''10.0.0.2''), (''username'', JStr ''abc'')])))
   = Inl FileNotFoundError"
  by code_simp

section \<open>The xy setter\<close>

text \<open>
  C5, run on the code. The pair [2, -1] is assigned to a reachable light. The cached pair
  is the clamped [1, 0]; the body of the PUT request is the pair as assigned, [2, -1].
\<close>

theorem xy_request_carries_unclamped_pair:
  "Light_set_xy (net_reply (JList [])) [JInt 2, JInt (- 1)] (demo_light 1 ''kitchen'' True)
     demo_bridge
   = (Inr (),
      (demo_light 1 ''kitchen'' True)
        \<lparr>l_state := JObj [(''on'', JBool True), (''bri'', JInt 100),
                          (''xy'', JList [JInt 1, JInt 0]), (''reachable'', JBool True)]\<rparr>,
      demo_bridge
        \<lparr>b_sent := [\<lparr>rq_method = ''PUT'', rq_url = ''http://10.0.0.2/api/abc/lights/1/state'',
                      rq_data = JObj [(''xy'', JList [JInt 2, JInt (- 1)])]\<rparr>]\<rparr>)"
  by code_simp

section \<open>An empty array as the bridge's answer\<close>

lemma register_empty_array:
  assumes "net (b_sent b @ [rq]) = Some r" "r_ok r" "r_body r = Some (JList [])"
    and "rq = \<lparr>rq_method = ''POST'', rq_url = api_url b None,
                rq_data = JObj [(''devicetype'', JStr (''phueAPI#'' @ b_deviceName b))]\<rparr>"
  shows "register net save b = (Inl PhueRegistrationError, b\<lparr>b_sent := b_sent b @ [rq]\<rparr>)"
  using assms
  by (simp add: register_def register_try_def sendRequest_def http_def Let_def r_json_def
      errorReturned_def)

lemma connect_empty_array:
  assumes "opt_truthy (b_ip b)" "b_username b \<noteq> []"
    and "net (b_sent b @ [rq]) = Some r" "r_ok r" "r_body r = Some (JList [])"
    and "rq = \<lparr>rq_method = ''GET'', rq_url = api_url b (Some (''/'' @ b_username b)),
                rq_data = JObj []\<rparr>"
  shows "connect net autodisc b = (Inr False, b\<lparr>b_sent := b_sent b @ [rq]\<rparr>)"
  using assms
  by (simp add: connect_def connect_probe_def sendRequest_def http_def Let_def r_json_def
      errorReturned_def)

text \<open>
  C10, as the code has it. On the empty array both predicates raise IndexError: they read
  element 0 of a list without looking at its length. In \<^verbatim>\<open>register()\<close> the handler
  turns the IndexError into PhueRegistrationError, so \<^verbatim>\<open>register()\<close> raises. In
  \<^verbatim>\<open>connect()\<close> (of a session that knows its address and has a username) the generic
  handler catches the IndexError and \<^verbatim>\<open>connect()\<close> returns \<^verbatim>\<open>False\<close>: the one
  request sent is the probe, and the session is otherwise as it was before the call, its
  connected flag and its registry included (\<^verbatim>\<open>loadDevices\<close> is not run).
\<close>

theorem empty_array_answer:
  "errorReturned (JList []) = Inl IndexError \<and>
   successReturned (JList []) = Inl IndexError \<and>
   (\<forall>net b save r rq.
      rq = \<lparr>rq_method = ''POST'', rq_url = api_url b None,
             rq_data = JObj [(''devicetype'', JStr (''phueAPI#'' @ b_deviceName b))]\<rparr> \<and>
      net (b_sent b @ [rq]) = Some r \<and> r_ok r \<and> r_body r = Some (JList [])
      \<longrightarrow> register net save b = (Inl PhueRegistrationError, b\<lparr>b_sent := b_sent b @ [rq]\<rparr>)) \<and>
   (\<forall>net b autodisc r rq.
      opt_truthy (b_ip b) \<and> b_username b \<noteq> [] \<and>
      rq = \<lparr>rq_method = ''GET'', rq_url = api_url b (Some (''/'' @ b_username b)),
             rq_data = JObj []\<rparr> \<and>
      net (b_sent b @ [rq]) = Some r \<and> r_ok r \<and> r_body r = Some (JList [])
      \<longrightarrow> connect net autodisc b = (Inr False, b\<lparr>b_sent := b_sent b @ [rq]\<rparr>))"
  using register_empty_array connect_empty_array
  by (simp add: errorReturned_def successReturned_def)

text \<open>
  The session \<open>demo_bridge\<close> on a network that answers every request with the empty
  array: \<^verbatim>\<open>register()\<close> raises PhueRegistrationError, \<^verbatim>\<open>connect()\<close> returns
  \<^verbatim>\<open>False\<close>.
\<close>

theorem empty_array_answer_witness:
  "opt_truthy (b_ip demo_bridge) \<and> b_username demo_bridge \<noteq> [] \<and>
   register (net_reply (JList [])) True demo_bridge =
     (Inl PhueRegistrationError,
      demo_bridge\<lparr>b_sent := [\<lparr>rq_method = ''POST'', rq_url = ''http://10.0.0.2/api'',
                                 rq_data = JObj [(''devicetype'', JStr ''phueAPI#phuepython'')]\<rparr>]\<rparr>) \<and>
   connect (net_reply (JList [])) False demo_bridge =
     (Inr False,
      demo_bridge\<lparr>b_sent := [\<lparr>rq_method = ''GET'', rq_url = ''http://10.0.0.2/api/abc'',
                                 rq_data = JObj []\<rparr>]\<rparr>)"
proof -
  have h: "opt_truthy (b_ip demo_bridge)" "b_username demo_bridge \<noteq> []"
    by (simp_all add: demo_bridge_def opt_truthy_def)
  have n: "net_reply (JList []) sent = Some \<lparr>r_ok = True, r_body = Some (JList [])\<rparr>" for sent
    by (simp add: net_reply_def)
  have u1: "api_url demo_bridge None = ''http://10.0.0.2/api''"
    by (simp add: api_url_def demo_bridge_def str_ip_def)
  have u2: "api_url demo_bridge (Some (CHR ''/'' # b_username demo_bridge)) = ''http://10.0.0.2/api/abc''"
    by (simp add: api_url_def demo_bridge_def str_ip_def slash_def)
  have s: "b_sent demo_bridge = []" "b_deviceName demo_bridge = ''phuepython''"
    by (simp_all add: demo_bridge_def)
  from empty_array_answer have
    "register (net_reply (JList [])) True demo_bridge =
       (Inl PhueRegistrationError,
        demo_bridge\<lparr>b_sent := b_sent demo_bridge @
          [\<lparr>rq_method = ''POST'', rq_url = api_url demo_bridge None,
            rq_data = JObj [(''devicetype'', JStr (''phueAPI#'' @ b_deviceName demo_bridge))]\<rparr>]\<rparr>)"
    using n by simp
  moreover from empty_array_answer h have
    "connect (net_reply (JList [])) False demo_bridge =
       (Inr False,
        demo_bridge\<lparr>b_sent := b_sent demo_bridge @
          [\<lparr>rq_method = ''GET'', rq_url = api_url demo_bridge (Some (''/'' @ b_username demo_bridge)),
            rq_data = JObj []\<rparr>]\<rparr>)"
    using n by simp
  ultimately show ?thesis using h by (simp add: u1 u2 s)
qed

text \<open>
  C10 as stated fails for \<^verbatim>\<open>connect()\<close>, which is total on the empty array: with
  autodiscovery on, an address and a username, it returns \<^verbatim>\<open>False\<close>.
\<close>

theorem connect_returns_false_on_empty_array:
  "connect (net_reply (JList [])) True demo_bridge =
     (Inr False,
      demo_bridge\<lparr>b_sent := [\<lparr>rq_method = ''GET'', rq_url = ''http://10.0.0.2/api/abc'',
                                 rq_data = JObj []\<rparr>]\<rparr>)"
  by code_simp

section \<open>Lookup by name\<close>

lemma light_by_name_found:
  assumes "lightName \<noteq> []" "(k, l) \<in> set (b_lights b)" "l_name l = JStr lightName"
  shows "\<exists>i<length (b_lights b).
           Bridge_light b 0 lightName = Inr (snd (b_lights b ! i)) \<and>
           l_name (snd (b_lights b ! i)) = JStr lightName \<and>
           (\<forall>j<i. l_name (snd (b_lights b ! j)) \<noteq> JStr lightName)"
proof -
  let ?P = "\<lambda>light. py_eq_str (l_name light) lightName"
  have "l \<in> set (dict_values (b_lights b))" "?P l"
    using assms by (force simp: dict_values_def py_eq_str_def)+
  then obtain x where x: "find ?P (dict_values (b_lights b)) = Some x"
    by (cases "find ?P (dict_values (b_lights b))") (auto simp: find_None_iff)
  then obtain i where "i < length (dict_values (b_lights b))" "dict_values (b_lights b) ! i = x"
    "?P x" "\<forall>j<i. \<not> ?P (dict_values (b_lights b) ! j)"
    by (auto simp: find_Some_iff)
  then show ?thesis
    using assms(1) x by (auto simp: Bridge_light_def dict_values_def py_eq_str_def)
qed

lemma light_by_name_missing:
  assumes "lightName \<noteq> []" "\<forall>(k, l) \<in> set (b_lights b). l_name l \<noteq> JStr lightName"
  shows "Bridge_light b 0 lightName = Inl NoSuchLight"
proof -
  have "find (\<lambda>light. py_eq_str (l_name light) lightName) (dict_values (b_lights b)) = None"
    using assms(2) by (auto simp: find_None_iff dict_values_def py_eq_str_def)
  then show ?thesis using assms(1) by (simp add: Bridge_light_def)
qed

lemma group_by_name_found:
  assumes "groupName \<noteq> []" "(k, g) \<in> set (b_groups b)" "g_name g = JStr groupName"
  shows "\<exists>i<length (b_groups b).
           Bridge_group b groupId groupName = Inr (snd (b_groups b ! i)) \<and>
           g_name (snd (b_groups b ! i)) = JStr groupName \<and>
           (\<forall>j<i. g_name (snd (b_groups b ! j)) \<noteq> JStr groupName)"
proof -
  let ?P = "\<lambda>g. py_eq_str (g_name g) groupName"
  have "g \<in> set (dict_values (b_groups b))" "?P g"
    using assms by (force simp: dict_values_def py_eq_str_def)+
  then obtain x where x: "find ?P (dict_values (b_groups b)) = Some x"
    by (cases "find ?P (dict_values (b_groups b))") (auto simp: find_None_iff)
  then obtain i where "i < length (dict_values (b_groups b))" "dict_values (b_groups b) ! i = x"
    "?P x" "\<forall>j<i. \<not> ?P (dict_values (b_groups b) ! j)"
    by (auto simp: find_Some_iff)
  then show ?thesis
    using assms(1) x by (auto simp: Bridge_group_def dict_values_def py_eq_str_def)
qed

lemma group_by_name_missing:
  assumes "groupName \<noteq> []" "\<forall>(k, g) \<in> set (b_groups b). g_name g \<noteq> JStr groupName"
  shows "Bridge_group b groupId groupName = Inl NoSuchGroup"
proof -
  have "find (\<lambda>g. py_eq_str (g_name g) groupName) (dict_values (b_groups b)) = None"
    using assms(2) by (auto simp: find_None_iff dict_values_def py_eq_str_def)
  then show ?thesis using assms(1) by (simp add: Bridge_group_def)
qed

lemma init_lowers:
  "(Light_init k l0 = Inr l \<longrightarrow> (\<exists>s. l_name l0 = JStr s \<and> l_name l = JStr (lower s))) \<and>
   (Group_init k' g0 = Inr g \<longrightarrow> (\<exists>s. g_name g0 = JStr s \<and> g_name g = JStr (lower s)))"
  by (cases "l_name l0"; cases "g_name g0") (auto simp: Light_init_def Group_init_def)

text \<open>
  C4, as the code has it. \<^verbatim>\<open>init\<close> stores the lower-cased name. A lookup by a
  non-empty name compares the query with the stored names as it is, character by
  character: when some stored light (group) has exactly the query as its name, the lookup
  returns the first such entry in the registry's order; when none has, it raises the
  not-found error, whatever the stored names are up to letter case. For a group the name
  takes precedence over any id.
\<close>

theorem lookup_by_name_is_exact:
  assumes "name \<noteq> []"
  shows
    "((k, l) \<in> set (b_lights b) \<and> l_name l = JStr name \<longrightarrow>
        (\<exists>i<length (b_lights b).
           Bridge_light b 0 name = Inr (snd (b_lights b ! i)) \<and>
           l_name (snd (b_lights b ! i)) = JStr name \<and>
           (\<forall>j<i. l_name (snd (b_lights b ! j)) \<noteq> JStr name))) \<and>
     ((\<forall>(k', l') \<in> set (b_lights b). l_name l' \<noteq> JStr name) \<longrightarrow>
        Bridge_light b 0 name = Inl NoSuchLight) \<and>
     ((k, g) \<in> set (b_groups b) \<and> g_name g = JStr name \<longrightarrow>
        (\<exists>i<length (b_groups b).
           Bridge_group b groupId name = Inr (snd (b_groups b ! i)) \<and>
           g_name (snd (b_groups b ! i)) = JStr name \<and>
           (\<forall>j<i. g_name (snd (b_groups b ! j)) \<noteq> JStr name))) \<and>
     ((\<forall>(k', g') \<in> set (b_groups b). g_name g' \<noteq> JStr name) \<longrightarrow>
        Bridge_group b groupId name = Inl NoSuchGroup) \<and>
     (Light_init k1 l0 = Inr l1 \<longrightarrow> (\<exists>s. l_name l0 = JStr s \<and> l_name l1 = JStr (lower s))) \<and>
     (Group_init k2 g0 = Inr g1 \<longrightarrow> (\<exists>s. g_name g0 = JStr s \<and> g_name g1 = JStr (lower s)))"
  using assms light_by_name_found [of name k l b] light_by_name_missing [of name b]
    group_by_name_found [of name k g b groupId] group_by_name_missing [of name b groupId]
    init_lowers [of k1 l0 l1 k2 g0 g1]
  by blast

text \<open>
  In the registry \<open>two_kitchens\<close> the query \<open>kitchen\<close> finds the first of the two
  lights and the first of the two groups of that name (for the group, whatever the id),
  and the query \<open>Kitchen\<close> finds neither; \<^verbatim>\<open>init\<close> stores \<open>Kitchen\<close> as
  \<open>kitchen\<close>.
\<close>

theorem lookup_by_name_is_exact_witness:
  "Bridge_light two_kitchens 0 ''kitchen'' = Inr (demo_light 1 ''kitchen'' True) \<and>
   Bridge_light two_kitchens 0 ''Kitchen'' = Inl NoSuchLight \<and>
   Bridge_group two_kitchens 5 ''kitchen'' = Inr (demo_group 1 ''kitchen'') \<and>
   Bridge_group two_kitchens 5 ''Kitchen'' = Inl NoSuchGroup \<and>
   (\<exists>s. l_name (demo_light 0 ''Kitchen'' True) = JStr s \<and>
        l_name (demo_light 1 ''kitchen'' True) = JStr (lower s)) \<and>
   (\<exists>s. g_name (demo_group 0 ''Kitchen'') = JStr s \<and>
        g_name (demo_group 1 ''kitchen'') = JStr (lower s))"
proof -
  have ls: "b_lights two_kitchens = [(1, demo_light 1 ''kitchen'' True), (2, demo_light 2 ''kitchen'' False)]"
    and gs: "b_groups two_kitchens =
              [(0, everywhere), (1, demo_group 1 ''kitchen''), (2, demo_group 2 ''kitchen'')]"
    by (simp_all add: two_kitchens_def)
  have n: "l_name (demo_light i s r) = JStr s" "g_name (demo_group i s) = JStr s"
      "g_name everywhere = JStr ''everywhere''" for i s r
    by (simp_all add: demo_light_def demo_group_def everywhere_def)
  have i1: "Light_init 1 (demo_light 0 ''Kitchen'' True) = Inr (demo_light 1 ''kitchen'' True)"
    and i2: "Group_init 1 (demo_group 0 ''Kitchen'') = Inr (demo_group 1 ''kitchen'')"
    by code_simp+
  have a: "''kitchen'' \<noteq> []" and b: "''Kitchen'' \<noteq> []" by simp_all
  note t1 = lookup_by_name_is_exact [OF a, where b = two_kitchens and k = 1
      and l = "demo_light 1 ''kitchen'' True" and g = "demo_group 1 ''kitchen''" and groupId = 5
      and ?k1.0 = 1 and ?l0.0 = "demo_light 0 ''Kitchen'' True" and ?l1.0 = "demo_light 1 ''kitchen'' True"
      and ?k2.0 = 1 and ?g0.0 = "demo_group 0 ''Kitchen''" and ?g1.0 = "demo_group 1 ''kitchen''"]
  note t2 = lookup_by_name_is_exact [OF b, where b = two_kitchens and groupId = 5]
  from t1 obtain i where i: "i < length (b_lights two_kitchens)"
      "Bridge_light two_kitchens 0 ''kitchen'' = Inr (snd (b_lights two_kitchens ! i))"
      "\<forall>j<i. l_name (snd (b_lights two_kitchens ! j)) \<noteq> JStr ''kitchen''"
    by (auto simp: ls n)
  have "i = 0" using i(3) by (cases i) (auto simp: ls n)
  then have c1: "Bridge_light two_kitchens 0 ''kitchen'' = Inr (demo_light 1 ''kitchen'' True)"
    using i(2) by (simp add: ls)
  from t2 have c2: "Bridge_light two_kitchens 0 ''Kitchen'' = Inl NoSuchLight"
    by (auto simp: ls n)
  from t1 obtain i' where i': "i' < length (b_groups two_kitchens)"
      "Bridge_group two_kitchens 5 ''kitchen'' = Inr (snd (b_groups two_kitchens ! i'))"
      "g_name (snd (b_groups two_kitchens ! i')) = JStr ''kitchen''"
      "\<forall>j<i'. g_name (snd (b_groups two_kitchens ! j)) \<noteq> JStr ''kitchen''"
    by (auto simp: gs n)
  have "i' = 1"
  proof -
    have "i' \<noteq> 0" using i'(3) by (cases i') (auto simp: gs n)
    moreover have "\<not> 1 < i'" using i'(4) by (auto simp: gs n)
    ultimately show ?thesis by simp
  qed
  then have c3: "Bridge_group two_kitchens 5 ''kitchen'' = Inr (demo_group 1 ''kitchen'')"
    using i'(2) by (simp add: gs)
  from t2 have c4: "Bridge_group two_kitchens 5 ''Kitchen'' = Inl NoSuchGroup"
    by (auto simp: gs n)
  from t1 i1 i2 have c5: "(\<exists>s. l_name (demo_light 0 ''Kitchen'' True) = JStr s \<and>
        l_name (demo_light 1 ''kitchen'' True) = JStr (lower s))"
    and c6: "(\<exists>s. g_name (demo_group 0 ''Kitchen'') = JStr s \<and>
        g_name (demo_group 1 ''kitchen'') = JStr (lower s))"
    by blast+
  from c1 c2 c3 c4 c5 c6 show ?thesis by blast
qed

text \<open>
  C4 as stated fails: the bridge reports a light and a group named \<open>Kitchen\<close>, the
  registry stores both as \<open>kitchen\<close>, and the query \<open>Kitchen\<close>, equal to the stored
  name up to letter case, finds neither.
\<close>

theorem lookup_misses_other_letter_case:
  "b_lights kitchen_bridge = [(1, demo_light 1 ''kitchen'' True)] \<and>
   b_groups kitchen_bridge = [(0, everywhere), (1, demo_group 1 ''kitchen'')] \<and>
   lower ''Kitchen'' = ''kitchen'' \<and>
   Bridge_light kitchen_bridge 0 ''Kitchen'' = Inl NoSuchLight \<and>
   Bridge_group kitchen_bridge 0 ''Kitchen'' = Inl NoSuchGroup"
  by code_simp

section \<open>The reachability gate of a light\<close>

lemma unreachable_request:
  assumes "l_state l = JObj d" "dict_get d ''reachable'' = Some r" "\<not> py_truthy r"
  shows "Light_request net url data method l b = (Inl LightNotReachable, b)"
  using assms by (simp add: Light_request_def Light_reachable_def)

lemma unreachable_cache_then_put:
  assumes "l_state l = JObj d" "dict_get d ''reachable'' = Some r" "\<not> py_truthy r"
    and "key \<noteq> ''reachable''"
  shows "Light_cache_then_put net key v sent l b =
           (Inl LightNotReachable, l\<lparr>l_state := JObj (dict_set key v d)\<rparr>, b)"
  using assms
  by (simp add: Light_cache_then_put_def Let_def unreachable_request [where d = "dict_set key v d" and r = r]
      dict_get_dict_set)

text \<open>
  C7, as the code has it. The light's state is a dictionary whose \<^verbatim>\<open>reachable\<close> entry is
  false (any falsy value). Every mutator leaves the bridge as it was: no request is
  issued. \<^verbatim>\<open>on\<close>, \<^verbatim>\<open>off\<close>, \<^verbatim>\<open>alert\<close>, \<^verbatim>\<open>effect\<close>, \<^verbatim>\<open>delete\<close> and the setters of
  brightness, saturation, hue and mired raise the not-reachable error, and so does the
  \<^verbatim>\<open>xy\<close> setter given a pair of numbers. The \<^verbatim>\<open>colormode\<close> setter raises it when the
  state has a \<^verbatim>\<open>colormode\<close> entry (with an invalid mode the class's logger logs
  first); when the state has none, the setter logs a warning and returns without an error
  and without a change.
\<close>

theorem unreachable_light_gate:
  assumes "l_state l = JObj d" "dict_get d ''reachable'' = Some r" "\<not> py_truthy r"
  shows
    "Light_on net l b = (Inl LightNotReachable, b) \<and>
     Light_off net l b = (Inl LightNotReachable, b) \<and>
     Light_alert net state l b = (Inl LightNotReachable, b) \<and>
     Light_effect net effect l b = (Inl LightNotReachable, b) \<and>
     Light_delete net l b = (Inl LightNotReachable, b) \<and>
     fst (Light_set_brightness net value l b) = Inl LightNotReachable \<and>
     snd (snd (Light_set_brightness net value l b)) = b \<and>
     fst (Light_set_saturation net value l b) = Inl LightNotReachable \<and>
     snd (snd (Light_set_saturation net value l b)) = b \<and>
     fst (Light_set_hue net value l b) = Inl LightNotReachable \<and>
     snd (snd (Light_set_hue net value l b)) = b \<and>
     fst (Light_set_mired net value l b) = Inl LightNotReachable \<and>
     snd (snd (Light_set_mired net value l b)) = b \<and>
     (is_num x \<and> is_num y \<longrightarrow>
        fst (Light_set_xy net [x, y] l b) = Inl LightNotReachable \<and>
        snd (snd (Light_set_xy net [x, y] l b)) = b) \<and>
     (dict_has ''colormode'' d \<and> (mode \<in> {''hs'', ''xy'', ''ct''} \<or> l_logger l = None) \<longrightarrow>
        fst (Light_set_colormode net mode l b) = Inl LightNotReachable \<and>
        snd (snd (Light_set_colormode net mode l b)) = b) \<and>
     (\<not> dict_has ''colormode'' d \<and> l_logger l = None \<longrightarrow>
        Light_set_colormode net mode l b = (Inr (), l, b))"
proof -
  note rq = unreachable_request [OF assms]
  note put = unreachable_cache_then_put [OF assms]
  have 1: "Light_on net l b = (Inl LightNotReachable, b)"
    "Light_off net l b = (Inl LightNotReachable, b)"
    "Light_alert net state l b = (Inl LightNotReachable, b)"
    "Light_effect net effect l b = (Inl LightNotReachable, b)"
    "Light_delete net l b = (Inl LightNotReachable, b)"
    by (simp_all add: Light_on_def Light_off_def Light_alert_def Light_effect_def Light_delete_def rq)
  have 2: "fst (Light_set_brightness net value l b) = Inl LightNotReachable"
    "snd (snd (Light_set_brightness net value l b)) = b"
    by (simp_all add: Light_set_brightness_def 1 put Let_def)
  have 3: "fst (Light_set_saturation net value l b) = Inl LightNotReachable"
    "snd (snd (Light_set_saturation net value l b)) = b"
    "fst (Light_set_hue net value l b) = Inl LightNotReachable"
    "snd (snd (Light_set_hue net value l b)) = b"
    "fst (Light_set_mired net value l b) = Inl LightNotReachable"
    "snd (snd (Light_set_mired net value l b)) = b"
    by (simp_all add: Light_set_saturation_def Light_set_hue_def Light_set_mired_def put Let_def)
  have 4: "fst (Light_set_xy net [x, y] l b) = Inl LightNotReachable \<and>
        snd (snd (Light_set_xy net [x, y] l b)) = b" if "is_num x" "is_num y"
    using that by (simp add: Light_set_xy_def nth_item_def py_sorted_mid_def put)
  have 5: "fst (Light_set_colormode net mode l b) = Inl LightNotReachable \<and>
        snd (snd (Light_set_colormode net mode l b)) = b"
    if "dict_has ''colormode'' d" "mode \<in> {''hs'', ''xy'', ''ct''} \<or> l_logger l = None"
    using that assms(1) by (auto simp: Light_set_colormode_def logWarning_def put)
  have 6: "Light_set_colormode net mode l b = (Inr (), l, b)"
    if "\<not> dict_has ''colormode'' d" "l_logger l = None"
    using that assms(1) by (simp add: Light_set_colormode_def logWarning_def)
  show ?thesis using 1 2 3 4 5 6 by blast
qed

text \<open>
  Two unreachable lights, one without and one with a \<^verbatim>\<open>colormode\<close> entry, on a network
  that would answer.
\<close>

theorem unreachable_light_gate_witness:
  "Light_on (net_reply (JObj [])) (demo_light 1 ''kitchen'' False) demo_bridge
     = (Inl LightNotReachable, demo_bridge) \<and>
   Light_delete (net_reply (JObj [])) (demo_light 1 ''kitchen'' False) demo_bridge
     = (Inl LightNotReachable, demo_bridge) \<and>
   fst (Light_set_brightness (net_reply (JObj [])) 300 (demo_light 1 ''kitchen'' False) demo_bridge)
     = Inl LightNotReachable \<and>
   snd (snd (Light_set_brightness (net_reply (JObj [])) 300 (demo_light 1 ''kitchen'' False) demo_bridge))
     = demo_bridge \<and>
   fst (Light_set_xy (net_reply (JObj [])) [JInt 2, JFloat (1 / 2)] (demo_light 1 ''kitchen'' False)
          demo_bridge) = Inl LightNotReachable \<and>
   fst (Light_set_colormode (net_reply (JObj [])) ''hs'' colour_light demo_bridge)
     = Inl LightNotReachable \<and>
   snd (snd (Light_set_colormode (net_reply (JObj [])) ''hs'' colour_light demo_bridge))
     = demo_bridge \<and>
   Light_set_colormode (net_reply (JObj [])) ''hs'' (demo_light 1 ''kitchen'' False) demo_bridge
     = (Inr (), demo_light 1 ''kitchen'' False, demo_bridge)"
proof -
  let ?d = "[(''on'', JBool True), (''bri'', JInt 100),
             (''xy'', JList [JFloat (1 / 2), JFloat (1 / 2)]), (''reachable'', JBool False)]"
  let ?c = "[(''colormode'', JStr ''ct''), (''reachable'', JBool False)]"
  have a: "l_state (demo_light 1 ''kitchen'' False) = JObj ?d"
      "dict_get ?d ''reachable'' = Some (JBool False)" "\<not> py_truthy (JBool False)"
      "\<not> dict_has ''colormode'' ?d" "l_logger (demo_light 1 ''kitchen'' False) = None"
    by (simp_all add: demo_light_def dict_get_def dict_has_def)
  have c: "l_state colour_light = JObj ?c" "dict_get ?c ''reachable'' = Some (JBool False)"
      "dict_has ''colormode'' ?c"
    by (simp_all add: colour_light_def demo_light_def dict_get_def dict_has_def)
  have n: "is_num (JInt 2)" "is_num (JFloat (1 / 2))" "''hs'' \<in> {''hs'', ''xy'', ''ct''}"
    by simp_all
  from unreachable_light_gate [OF a(1,2,3), of "net_reply (JObj [])" demo_bridge _ _ 300
      "JInt 2" "JFloat (1 / 2)" "''hs''"]
    unreachable_light_gate [OF c(1,2) a(3), of "net_reply (JObj [])" demo_bridge _ _ 300
      "JInt 2" "JFloat (1 / 2)" "''hs''"]
    a(4,5) c(3) n
  show ?thesis by blast
qed

text \<open>
  C7 as stated fails for the \<^verbatim>\<open>colormode\<close> setter: on an unreachable light whose state
  has no \<^verbatim>\<open>colormode\<close> entry it returns normally instead of raising.
\<close>

theorem colormode_setter_returns_on_unreachable_light:
  "Light_reachable (demo_light 1 ''kitchen'' False) = Inr (JBool False) \<and>
   Light_set_colormode (net_reply (JObj [])) ''hs'' (demo_light 1 ''kitchen'' False) demo_bridge
     = (Inr (), demo_light 1 ''kitchen'' False, demo_bridge)"
  by code_simp

section \<open>The brightness setters\<close>

lemma api_url_sent [simp]: "api_url (b\<lparr>b_sent := s\<rparr>) u = api_url b u"
  by (simp add: api_url_def)

lemma auth_path_sent [simp]: "auth_path (b\<lparr>b_sent := s\<rparr>) u = auth_path b u"
  by (simp add: auth_path_def)

lemma reachable_request:
  assumes "l_state l = JObj d" "dict_get d ''reachable'' = Some r" "py_truthy r" "l_bridge l"
  shows "Light_request net url (Some body) method l b =
           ((if net (b_sent b @ [light_request method l b url body]) = None
             then Inl PhueRequestError else Inr ()),
            b\<lparr>b_sent := b_sent b @ [light_request method l b url body]\<rparr>)"
  using assms
  by (auto simp: Light_request_def Light_reachable_def sendAuthRequest_def sendRequest_def
      http_def Let_def light_request_def split: option.splits)

lemma light_brightness_zero:
  assumes "l_state l = JObj d" "dict_get d ''reachable'' = Some r" "py_truthy r" "l_bridge l"
    and "Light_set_brightness net 0 l b = (res, l', b')"
  shows "b' = b\<lparr>b_sent := b_sent b @
                [light_request ''PUT'' l b (Light_state_url l) [(''on'', JBool False)]]\<rparr> \<and>
         (net (b_sent b') \<noteq> None \<longrightarrow> res = Inr () \<and> Light_brightness l' = Inr (JInt 0))"
  using assms(5)
  by (auto simp: Light_set_brightness_def Light_off_def reachable_request [OF assms(1-4)]
      assms(1) Light_brightness_def dict_get_dict_set split: if_splits)

lemma light_brightness_nonzero:
  assumes "l_state l = JObj d" "dict_get d ''reachable'' = Some r" "py_truthy r" "l_bridge l"
    and "value \<noteq> 0" "v = (if value < 1 then 1 else if 254 < value then 254 else value)"
    and "Light_set_brightness net value l b = (res, l', b')"
  shows "b' = b\<lparr>b_sent := b_sent b @
                [light_request ''PUT'' l b (Light_state_url l) [(''bri'', JInt v)]]\<rparr> \<and>
         Light_brightness l' = Inr (JInt v) \<and>
         (net (b_sent b') \<noteq> None \<longrightarrow> res = Inr ())"
proof -
  let ?l = "l\<lparr>l_state := JObj (dict_set ''bri'' (JInt v) d)\<rparr>"
  have r: "l_state ?l = JObj (dict_set ''bri'' (JInt v) d)"
      "dict_get (dict_set ''bri'' (JInt v) d) ''reachable'' = Some r" "l_bridge ?l"
    using assms(2,4) by (simp_all add: dict_get_dict_set)
  have u: "Light_state_url ?l = Light_state_url l"
      "light_request m ?l b u body = light_request m l b u body" for m u body
    by (simp_all add: Light_state_url_def light_request_def)
  have sm: "sorted_mid 1 value 254 = v" using assms(6) by (simp add: sorted_mid_clamp)
  show ?thesis
    using assms(5,7)
    by (auto simp: Light_set_brightness_def Light_cache_then_put_def Let_def sm assms(1)
        reachable_request [OF r(1,2) assms(3) r(3)] u Light_brightness_def dict_get_dict_set
        split: if_splits)
qed

lemma group_send:
  assumes "g_bridge g"
  shows "Group_request net url (Some body) method g b =
           ((if net (b_sent b @ [group_request method g b url body]) = None
             then Inl PhueRequestError
             else Inr (net (b_sent b @ [group_request method g b url body]))),
            b\<lparr>b_sent := b_sent b @ [group_request method g b url body]\<rparr>)"
  using assms
  by (auto simp: Group_request_def sendAuthRequest_def sendRequest_def
      http_def Let_def group_request_def split: option.splits)

lemma group_brightness_zero:
  assumes "g_bridge g" "g_state g = JObj st" "g_action g = JObj act"
    and "Group_set_brightness net 0 g b = (res, g', b')"
  shows "b' = b\<lparr>b_sent := b_sent b @
                [group_request ''PUT'' g b (Group_action_url g) [(''on'', JBool False)]]\<rparr> \<and>
         (net (b_sent b') \<noteq> None \<longrightarrow> res = Inr () \<and> Group_brightness g' = Inr (JInt 0))"
proof -
  let ?g = "g\<lparr>g_state := JObj (dict_set ''all_on'' (JBool False) (dict_set ''any_on'' (JBool False) st))\<rparr>"
  have u: "Group_action_url ?g = Group_action_url g" "g_bridge ?g"
      "group_request m ?g b u body = group_request m g b u body" for m u body
    using assms(1) by (simp_all add: Group_action_url_def group_request_def)
  show ?thesis
    using assms(4)
    by (auto simp: Group_set_brightness_def Group_off_def Group_switch_def Let_def assms(2,3)
        group_send [OF u(2)] u Group_brightness_def dict_get_dict_set split: if_splits)
qed

lemma group_brightness_nonzero:
  assumes "g_bridge g" "g_action g = JObj act"
    and "value \<noteq> 0" "v = (if value < 1 then 1 else if 254 < value then 254 else value)"
    and "Group_set_brightness net value g b = (res, g', b')"
  shows "b' = b\<lparr>b_sent := b_sent b @
                [group_request ''PUT'' g b (Group_action_url g) [(''bri'', JInt v)]]\<rparr> \<and>
         Group_brightness g' = Inr (JInt v) \<and>
         (net (b_sent b') \<noteq> None \<longrightarrow> res = Inr ())"
proof -
  let ?g = "g\<lparr>g_action := JObj (dict_set ''bri'' (JInt v) act)\<rparr>"
  have u: "Group_action_url ?g = Group_action_url g" "g_bridge ?g"
      "group_request m ?g b u body = group_request m g b u body" for m u body
    using assms(1) by (simp_all add: Group_action_url_def group_request_def)
  have sm: "sorted_mid 1 value 254 = v" using assms(4) by (simp add: sorted_mid_clamp)
  show ?thesis
    using assms(3,5)
    by (auto simp: Group_set_brightness_def Let_def sm assms(2)
        group_send [OF u(2)] u Group_brightness_def dict_get_dict_set split: if_splits)
qed

text \<open>
  C6, as the code has it. The light is reachable and has its bridge; the group has its
  bridge, and its state and action are dictionaries. \<open>v\<close> is the value moved to the nearest bound of
  [1, 254], which is the value itself when it lies in the range.

  Assigning 0 issues exactly one request, the PUT of \<^verbatim>\<open>{'on': False}\<close>, and no
  brightness PUT; when the request is delivered the setter returns and the cached
  brightness is 0. Assigning any other value caches \<open>v\<close> and issues exactly one request,
  the PUT of \<^verbatim>\<open>{'bri': v}\<close>; the setter returns when the request is delivered.
\<close>

theorem brightness_setter:
  assumes "l_state l = JObj d" "dict_get d ''reachable'' = Some r" "py_truthy r" "l_bridge l"
    and "g_bridge g" "g_state g = JObj st" "g_action g = JObj act"
    and "v = (if val < 1 then 1 else if 254 < val then 254 else val)"
    and "Light_set_brightness net val l b = (res, l', b')"
    and "Group_set_brightness net val g b = (gres, g', gb')"
  shows
    "(val = 0 \<longrightarrow>
        b' = b\<lparr>b_sent := b_sent b @
               [light_request ''PUT'' l b (Light_state_url l) [(''on'', JBool False)]]\<rparr> \<and>
        (net (b_sent b') \<noteq> None \<longrightarrow> res = Inr () \<and> Light_brightness l' = Inr (JInt 0)) \<and>
        gb' = b\<lparr>b_sent := b_sent b @
               [group_request ''PUT'' g b (Group_action_url g) [(''on'', JBool False)]]\<rparr> \<and>
        (net (b_sent gb') \<noteq> None \<longrightarrow> gres = Inr () \<and> Group_brightness g' = Inr (JInt 0))) \<and>
     (val \<noteq> 0 \<longrightarrow>
        1 \<le> v \<and> v \<le> 254 \<and> (1 \<le> val \<and> val \<le> 254 \<longrightarrow> v = val) \<and>
        b' = b\<lparr>b_sent := b_sent b @
               [light_request ''PUT'' l b (Light_state_url l) [(''bri'', JInt v)]]\<rparr> \<and>
        Light_brightness l' = Inr (JInt v) \<and>
        (net (b_sent b') \<noteq> None \<longrightarrow> res = Inr ()) \<and>
        gb' = b\<lparr>b_sent := b_sent b @
               [group_request ''PUT'' g b (Group_action_url g) [(''bri'', JInt v)]]\<rparr> \<and>
        Group_brightness g' = Inr (JInt v) \<and>
        (net (b_sent gb') \<noteq> None \<longrightarrow> gres = Inr ()))"
proof (cases "val = 0")
  case True
  with light_brightness_zero [OF assms(1-4), of net b res l' b']
    group_brightness_zero [OF assms(5-7), of net b gres g' gb'] assms(9,10)
  show ?thesis by simp
next
  case False
  have "1 \<le> v \<and> v \<le> 254 \<and> (1 \<le> val \<and> val \<le> 254 \<longrightarrow> v = val)"
    using assms(8) by simp
  with False light_brightness_nonzero [OF assms(1-4) False assms(8,9)]
    group_brightness_nonzero [OF assms(5,7) False assms(8,10)]
  show ?thesis by simp
qed

text \<open>
  A reachable light and a group on a network that answers: assigning 0 sends the off PUT
  and caches 0; assigning 300 caches and sends 254.
\<close>

theorem brightness_setter_witness:
  "b_sent (snd (snd (Light_set_brightness (net_reply (JObj [])) 0 (demo_light 1 ''kitchen'' True) demo_bridge)))
     = [\<lparr>rq_method = ''PUT'', rq_url = ''http://10.0.0.2/api/abc/lights/1/state'',
         rq_data = JObj [(''on'', JBool False)]\<rparr>] \<and>
   Light_brightness (fst (snd (Light_set_brightness (net_reply (JObj [])) 0 (demo_light 1 ''kitchen'' True) demo_bridge)))
     = Inr (JInt 0) \<and>
   b_sent (snd (snd (Light_set_brightness (net_reply (JObj [])) 300 (demo_light 1 ''kitchen'' True) demo_bridge)))
     = [\<lparr>rq_method = ''PUT'', rq_url = ''http://10.0.0.2/api/abc/lights/1/state'',
         rq_data = JObj [(''bri'', JInt 254)]\<rparr>] \<and>
   Light_brightness (fst (snd (Light_set_brightness (net_reply (JObj [])) 300 (demo_light 1 ''kitchen'' True) demo_bridge)))
     = Inr (JInt 254) \<and>
   b_sent (snd (snd (Group_set_brightness (net_reply (JObj [])) 0 (demo_group 1 ''kitchen'') demo_bridge)))
     = [\<lparr>rq_method = ''PUT'', rq_url = ''http://10.0.0.2/api/abc/groups/1/action'',
         rq_data = JObj [(''on'', JBool False)]\<rparr>] \<and>
   Group_brightness (fst (snd (Group_set_brightness (net_reply (JObj [])) 0 (demo_group 1 ''kitchen'') demo_bridge)))
     = Inr (JInt 0) \<and>
   b_sent (snd (snd (Group_set_brightness (net_reply (JObj [])) 300 (demo_group 1 ''kitchen'') demo_bridge)))
     = [\<lparr>rq_method = ''PUT'', rq_url = ''http://10.0.0.2/api/abc/groups/1/action'',
         rq_data = JObj [(''bri'', JInt 254)]\<rparr>] \<and>
   Group_brightness (fst (snd (Group_set_brightness (net_reply (JObj [])) 300 (demo_group 1 ''kitchen'') demo_bridge)))
     = Inr (JInt 254)"
proof -
  let ?N = "net_reply (JObj [])" and ?L = "demo_light 1 ''kitchen'' True"
  let ?G = "demo_group 1 ''kitchen''" and ?B = demo_bridge
  let ?d = "[(''on'', JBool True), (''bri'', JInt 100),
             (''xy'', JList [JFloat (1 / 2), JFloat (1 / 2)]), (''reachable'', JBool True)]"
  have l: "l_state ?L = JObj ?d" "dict_get ?d ''reachable'' = Some (JBool True)"
      "py_truthy (JBool True)" "l_bridge ?L"
    by (simp_all add: demo_light_def dict_get_def)
  have g: "g_bridge ?G"
      "g_state ?G = JObj [(''all_on'', JBool False), (''any_on'', JBool False)]"
      "g_action ?G = JObj [(''on'', JBool False), (''bri'', JInt 100)]"
    by (simp_all add: demo_group_def)
  have n: "?N s \<noteq> None" for s by (simp add: net_reply_def)
  have u: "light_request ''PUT'' ?L ?B (Light_state_url ?L) body =
             \<lparr>rq_method = ''PUT'', rq_url = ''http://10.0.0.2/api/abc/lights/1/state'',
              rq_data = JObj body\<rparr>"
          "group_request ''PUT'' ?G ?B (Group_action_url ?G) body =
             \<lparr>rq_method = ''PUT'', rq_url = ''http://10.0.0.2/api/abc/groups/1/action'',
              rq_data = JObj body\<rparr>" for body
    by (simp_all add: light_request_def group_request_def) code_simp+
  have s: "b_sent ?B = []" by (simp add: demo_bridge_def)
  have c: "X = (fst X, fst (snd X), snd (snd X))" for X :: "'a \<times> 'b \<times> 'c" by simp
  note t0 = brightness_setter [where val = 0 and net = ?N and b = ?B, OF l g refl c c]
  note t1 = brightness_setter [where val = 300 and net = ?N and b = ?B, OF l g refl c c]
  from t0 t1 n show ?thesis by (simp add: u s)
qed

text \<open>
  C6 as stated fails where the off request is not delivered or not sent. On a network
  that is down, assigning 0 to a reachable light issues the off PUT, the setter raises
  PhueRequestError and the cached brightness stays 100. On an unreachable light,
  assigning 0 raises LightNotReachable: no request is issued and the light is unchanged.
\<close>

theorem brightness_zero_without_delivery:
  "Light_set_brightness net_down 0 (demo_light 1 ''kitchen'' True) demo_bridge =
     (Inl PhueRequestError, demo_light 1 ''kitchen'' True,
      demo_bridge\<lparr>b_sent := [\<lparr>rq_method = ''PUT'', rq_url = ''http://10.0.0.2/api/abc/lights/1/state'',
                                 rq_data = JObj [(''on'', JBool False)]\<rparr>]\<rparr>) \<and>
   Light_brightness (demo_light 1 ''kitchen'' True) = Inr (JInt 100) \<and>
   Light_set_brightness (net_reply (JObj [])) 0 (demo_light 2 ''hall'' False) demo_bridge =
     (Inl LightNotReachable, demo_light 2 ''hall'' False, demo_bridge)"
  by code_simp

section \<open>Renaming a group\<close>

lemma rename_answers_skip:
  assumes "list_all (\<lambda>a. acknowledged (Group_name_key g) a = Inr None) pre"
  shows "rename_answers net newName allow (pre @ rest) g b = rename_answers net newName allow rest g b"
  using assms by (induction pre) simp_all

lemma rename_answers_first:
  assumes "g_bridge g" "acknowledged (Group_name_key g) answer = Inr (Some acked)"
  shows "rename_answers net newName allow (answer # post) g b =
           (if acked = JStr newName then (Inr True, g\<lparr>g_name := JStr newName\<rparr>, b)
            else if allow then (Inr True, g\<lparr>g_name := acked\<rparr>, b)
            else ((if net (b_sent b @ [group_request ''PUT'' g b (Group_url g) [(''name'', g_name g)]]) = None
                   then Inl PhueRequestError else Inr False),
                  g,
                  b\<lparr>b_sent := b_sent b @ [group_request ''PUT'' g b (Group_url g) [(''name'', g_name g)]]\<rparr>))"
  using assms by (simp add: py_eq_str_def group_send)

text \<open>
  C9. The group has its bridge, the rename request \<open>rq1\<close> is answered by a truthy
  response whose body iterates to answers of which \<open>answer\<close> is the first that
  acknowledges \<^verbatim>\<open>/groups/<id>/name\<close>, with the value \<open>acked\<close> (the answers before it
  pass the test of the loop without acknowledging). Then: when the acknowledged name is
  the requested one, the local name becomes the requested name and \<^verbatim>\<open>rename\<close> returns
  \<^verbatim>\<open>True\<close>; when it differs and \<^verbatim>\<open>allowExistingName\<close> is set, the local name becomes
  the acknowledged name and \<^verbatim>\<open>rename\<close> returns \<^verbatim>\<open>True\<close>; when it differs and
  \<^verbatim>\<open>allowExistingName\<close> is not set, the local name stays, the compensating request
  \<open>rq2\<close> with the prior name is issued, and \<^verbatim>\<open>rename\<close> returns \<^verbatim>\<open>False\<close> when
  \<open>rq2\<close> is delivered; when the transport fails on \<open>rq2\<close>, the request layer raises
  PhueRequestError and \<^verbatim>\<open>rename\<close> returns nothing.
\<close>

theorem rename_follows_acknowledgment:
  assumes "g_bridge g"
    and "rq1 = group_request ''PUT'' g b (Group_url g) [(''name'', JStr newName)]"
    and "rq2 = group_request ''PUT'' g b (Group_url g) [(''name'', g_name g)]"
    and "net (b_sent b @ [rq1]) = Some r" "r_ok r" "r_body r = Some body"
    and "py_iter body = Inr (pre @ answer # post)"
    and "list_all (\<lambda>a. acknowledged (Group_name_key g) a = Inr None) pre"
    and "acknowledged (Group_name_key g) answer = Inr (Some acked)"
  shows
    "(acked = JStr newName \<longrightarrow>
        Group_rename net newName allowExistingName g b =
          (Inr True, g\<lparr>g_name := JStr newName\<rparr>, b\<lparr>b_sent := b_sent b @ [rq1]\<rparr>)) \<and>
     (acked \<noteq> JStr newName \<and> allowExistingName \<longrightarrow>
        Group_rename net newName allowExistingName g b =
          (Inr True, g\<lparr>g_name := acked\<rparr>, b\<lparr>b_sent := b_sent b @ [rq1]\<rparr>)) \<and>
     (acked \<noteq> JStr newName \<and> \<not> allowExistingName \<longrightarrow>
        Group_rename net newName allowExistingName g b =
          ((if net (b_sent b @ [rq1, rq2]) = None then Inl PhueRequestError else Inr False),
           g, b\<lparr>b_sent := b_sent b @ [rq1, rq2]\<rparr>))"
proof -
  let ?b = "b\<lparr>b_sent := b_sent b @ [rq1]\<rparr>"
  have 1: "Group_rename net newName allowExistingName g b =
             rename_answers net newName allowExistingName (answer # post) g ?b"
    using assms(1,2,4-8)
    by (simp add: Group_rename_def group_send r_json_def rename_answers_skip)
  have 2: "group_request ''PUT'' g ?b u body = group_request ''PUT'' g b u body" for u body
    by (simp add: group_request_def)
  show ?thesis
    unfolding 1 rename_answers_first [OF assms(1,9)] 2 using assms(3) by simp
qed

text \<open>
  Group 1, named \<open>kitchen\<close>, on a bridge that settles every rename as \<open>den\<close>: the three
  cases of the acknowledgment.
\<close>

theorem rename_follows_acknowledgment_witness:
  "Group_rename (net_reply rename_reply) ''den'' False (demo_group 1 ''kitchen'') demo_bridge =
     (Inr True, (demo_group 1 ''kitchen'')\<lparr>g_name := JStr ''den''\<rparr>,
      demo_bridge\<lparr>b_sent := [\<lparr>rq_method = ''PUT'', rq_url = ''http://10.0.0.2/api/abc/groups/1'',
                                 rq_data = JObj [(''name'', JStr ''den'')]\<rparr>]\<rparr>) \<and>
   Group_rename (net_reply rename_reply) ''office'' True (demo_group 1 ''kitchen'') demo_bridge =
     (Inr True, (demo_group 1 ''kitchen'')\<lparr>g_name := JStr ''den''\<rparr>,
      demo_bridge\<lparr>b_sent := [\<lparr>rq_method = ''PUT'', rq_url = ''http://10.0.0.2/api/abc/groups/1'',
                                 rq_data = JObj [(''name'', JStr ''office'')]\<rparr>]\<rparr>) \<and>
   Group_rename (net_reply rename_reply) ''office'' False (demo_group 1 ''kitchen'') demo_bridge =
     (Inr False, demo_group 1 ''kitchen'',
      demo_bridge\<lparr>b_sent := [\<lparr>rq_method = ''PUT'', rq_url = ''http://10.0.0.2/api/abc/groups/1'',
                                 rq_data = JObj [(''name'', JStr ''office'')]\<rparr>,
                               \<lparr>rq_method = ''PUT'', rq_url = ''http://10.0.0.2/api/abc/groups/1'',
                                 rq_data = JObj [(''name'', JStr ''kitchen'')]\<rparr>]\<rparr>)"
proof -
  let ?N = "net_reply rename_reply" and ?G = "demo_group 1 ''kitchen''" and ?B = demo_bridge
  let ?pre = "[JObj [(''error'', JObj [])]]"
  let ?ans = "JObj [(''success'', JObj [(''/groups/1/name'', JStr ''den'')])]"
  have g: "g_bridge ?G" "g_name ?G = JStr ''kitchen''" by (simp_all add: demo_group_def)
  have u: "group_request ''PUT'' ?G ?B (Group_url ?G) body =
             \<lparr>rq_method = ''PUT'', rq_url = ''http://10.0.0.2/api/abc/groups/1'',
              rq_data = JObj body\<rparr>" for body
    by (simp add: group_request_def) code_simp
  have n: "?N s = Some \<lparr>r_ok = True, r_body = Some rename_reply\<rparr>" for s
    by (simp add: net_reply_def)
  have r: "r_ok \<lparr>r_ok = True, r_body = Some rename_reply\<rparr>"
      "r_body \<lparr>r_ok = True, r_body = Some rename_reply\<rparr> = Some rename_reply"
    by simp_all
  have it: "py_iter rename_reply = Inr (?pre @ ?ans # [])" by (simp add: rename_reply_def)
  have k: "Group_name_key ?G = ''/groups/1/name''" by code_simp
  have pre: "list_all (\<lambda>a. acknowledged (Group_name_key ?G) a = Inr None) ?pre"
    by (simp add: k acknowledged_def dict_has_def)
  have ack: "acknowledged (Group_name_key ?G) ?ans = Inr (Some (JStr ''den''))"
    by (simp add: k acknowledged_def dict_has_def dict_get_def)
  have s: "b_sent ?B = []" by (simp add: demo_bridge_def)
  note t = rename_follows_acknowledgment [where b = ?B and net = ?N, OF g(1) refl refl n r it pre ack]
  from t [where newName = "''den''" and allowExistingName = False]
    t [where newName = "''office''" and allowExistingName = True]
    t [where newName = "''office''" and allowExistingName = False]
  show ?thesis by (simp add: u s g(2) n)
qed

text \<open>
  C9 as stated fails in its third case: the bridge settles the rename of group 1 to
  \<open>office\<close> as \<open>den\<close> and is then out of reach, \<^verbatim>\<open>allowExistingName\<close> is not set, and
  \<^verbatim>\<open>rename\<close> raises PhueRequestError on the compensating request instead of returning
  \<^verbatim>\<open>False\<close>.
\<close>

theorem rename_raises_when_compensation_fails:
  "Group_rename (net_first rename_reply) ''office'' False (demo_group 1 ''kitchen'') demo_bridge =
     (Inl PhueRequestError, demo_group 1 ''kitchen'',
      demo_bridge\<lparr>b_sent := [\<lparr>rq_method = ''PUT'', rq_url = ''http://10.0.0.2/api/abc/groups/1'',
                                 rq_data = JObj [(''name'', JStr ''office'')]\<rparr>,
                               \<lparr>rq_method = ''PUT'', rq_url = ''http://10.0.0.2/api/abc/groups/1'',
                                 rq_data = JObj [(''name'', JStr ''kitchen'')]\<rparr>]\<rparr>)"
  by code_simp

section \<open>Reloading the registry\<close>

lemma keeps_refl [simp]: "keeps b b"
  by (simp add: keeps_def)



lemma keeps_sent [simp]: "keeps b (b'\<lparr>b_sent := s\<rparr>) = keeps b b'"
  by (simp add: keeps_def)




















section \<open>The cross-linking of the scenes\<close>

lemma with_scene_0 [simp]: "with_scene sid 0 l = l"
  by (cases "l_myScenes l") (simp_all add: with_scene_def)

lemma with_scene_add:
  "with_scene sid n (with_scene sid m l) = with_scene sid (m + n) l"
  by (cases "l_myScenes l") (simp_all add: with_scene_def replicate_add)

lemma linked_Nil [simp]: "linked sid [] ls = ls"
  by (induction ls) (simp_all add: linked_def)

lemma keys_linked [simp]: "map fst (linked sid ks ls) = map fst ls"
  by (simp add: linked_def comp_def)

lemma linked_Cons:
  "linked sid (k # ks) ls = linked sid ks (linked sid [k] ls)"
  by (simp add: linked_def with_scene_add comp_def)

lemma dict_get_absent: "k \<notin> set (map fst ls) \<Longrightarrow> dict_get ls k = None"
  by (induction ls) (auto simp: dict_get_def)

lemma linked_absent:
  "dict_get ls k = None \<Longrightarrow> linked sid [k] ls = ls"
  by (induction ls) (auto simp: linked_def dict_get_def split: if_splits)

lemma linked_present:
  assumes "distinct (map fst ls)" "dict_get ls k = Some l" "l_myScenes l = JList xs"
  shows "dict_set k (l\<lparr>l_myScenes := JList (xs @ [JStr sid])\<rparr>) ls = linked sid [k] ls"
  using assms
proof (induction ls)
  case Nil
  then show ?case by (simp add: dict_get_def)
next
  case (Cons p ls)
  obtain k' l' where p: "p = (k', l')" by (cases p)
  show ?case
  proof (cases "k' = k")
    case True
    with Cons.prems p have "l' = l" "k \<notin> set (map fst ls)" by (auto simp: dict_get_def)
    then have "linked sid [k] ls = ls"
      by (intro linked_absent dict_get_absent)
    with True p \<open>l' = l\<close> Cons.prems(3) show ?thesis
      by (simp add: linked_def with_scene_def)
  next
    case False
    with Cons.prems p have "dict_get ls k = Some l" "distinct (map fst ls)"
      by (auto simp: dict_get_def)
    from Cons.IH [OF this(2,1) Cons.prems(3)] False p show ?thesis
      by (simp add: linked_def)
  qed
qed

lemma link_light_step:
  assumes "py_int i = Inr k" "k \<noteq> 0" "distinct (map fst (b_lights b))"
    and "list_all (\<lambda>p. is_list (l_myScenes (snd p))) (b_lights b)"
  shows "link_light sid i b = (Inr (), b\<lparr>b_lights := linked sid [k] (b_lights b)\<rparr>)"
proof (cases "dict_get (b_lights b) k")
  case None
  with assms(1,2) show ?thesis
    by (simp add: link_light_def Bridge_light_def linked_absent)
next
  case (Some l)
  then have "(k, l) \<in> set (b_lights b)" by (simp add: dict_get_def map_of_SomeD)
  with assms(4) have "is_list (l_myScenes l)" by (auto simp: list_all_iff)
  then obtain xs where xs: "l_myScenes l = JList xs" by (cases "l_myScenes l") simp_all
  from linked_present [OF assms(3) Some xs] Some xs assms(1,2) show ?thesis
    by (simp add: link_light_def Bridge_light_def)
qed

lemma is_list_with_scene [simp]: "is_list (l_myScenes (with_scene sid n l)) = is_list (l_myScenes l)"
  by (cases "l_myScenes l") (simp_all add: with_scene_def)

lemma lists_linked:
  "list_all (\<lambda>p. is_list (l_myScenes (snd p))) (linked sid ks ls) =
   list_all (\<lambda>p. is_list (l_myScenes (snd p))) ls"
  by (simp add: linked_def list_all_iff)

lemma link_lights_loop:
  assumes "map py_int ids = map Inr ks" "0 \<notin> set ks" "distinct (map fst (b_lights b))"
    and "list_all (\<lambda>p. is_list (l_myScenes (snd p))) (b_lights b)"
  shows "for_each (link_light sid) ids b = (Inr (), b\<lparr>b_lights := linked sid ks (b_lights b)\<rparr>)"
  using assms
proof (induction ids arbitrary: ks b)
  case Nil
  then show ?case by simp
next
  case (Cons i ids)
  then obtain k ks' where ks: "ks = k # ks'" "py_int i = Inr k" "map py_int ids = map Inr ks'"
    by (cases ks) auto
  let ?b = "b\<lparr>b_lights := linked sid [k] (b_lights b)\<rparr>"
  from Cons.prems ks have k: "k \<noteq> 0" "0 \<notin> set ks'" by auto
  have 1: "link_light sid i b = (Inr (), ?b)"
    by (rule link_light_step [OF ks(2) k(1) Cons.prems(3,4)])
  have "for_each (link_light sid) ids ?b = (Inr (), ?b\<lparr>b_lights := linked sid ks' (b_lights ?b)\<rparr>)"
    by (rule Cons.IH [OF ks(3) k(2)]) (simp_all add: Cons.prems lists_linked)
  with 1 show ?case by (simp add: ks(1) linked_Cons [of sid k ks'])
qed

lemma for_each_append:
  "for_each f (xs @ ys) s =
     (case for_each f xs s of (Inl e, s') \<Rightarrow> (Inl e, s') | (Inr u, s') \<Rightarrow> for_each f ys s')"
  by (induction xs arbitrary: s) (auto split: prod.splits sum.splits)

lemma link_light_zero:
  "py_int i = Inr 0 \<Longrightarrow> link_light sid i b = (Inl SelectorError, b)"
  by (simp add: link_light_def Bridge_light_def)

lemma link_lights_zero:
  assumes "map py_int ids = map Inr ks" "0 \<notin> set ks" "py_int i = Inr 0"
    and "distinct (map fst (b_lights b))"
    and "list_all (\<lambda>p. is_list (l_myScenes (snd p))) (b_lights b)"
  shows "for_each (link_light sid) (ids @ i # rest) b =
           (Inl SelectorError, b\<lparr>b_lights := linked sid ks (b_lights b)\<rparr>)"
  by (simp add: for_each_append link_lights_loop [OF assms(1,2,4,5)] link_light_zero [OF assms(3)])

lemma link_light_raises:
  "py_int i = Inl e \<Longrightarrow> link_light sid i b = (Inl e, b)"
  by (simp add: link_light_def)

lemma link_lights_raises:
  assumes "map py_int ids = map Inr ks" "0 \<notin> set ks" "py_int i = Inl e"
    and "distinct (map fst (b_lights b))"
    and "list_all (\<lambda>p. is_list (l_myScenes (snd p))) (b_lights b)"
  shows "for_each (link_light sid) (ids @ i # rest) b =
           (Inl e, b\<lparr>b_lights := linked sid ks (b_lights b)\<rparr>)"
  by (simp add: for_each_append link_lights_loop [OF assms(1,2,4,5)] link_light_raises [OF assms(3)])

lemma getitem_contains: "py_getitem data k = Inr v \<Longrightarrow> py_contains k data = Inr True"
  by (cases data) (auto simp: dict_has_get split: option.splits)

lemma load_group_scene:
  assumes "Scene_new data = Inr sc" "Scene_init sceneId sc = Inr sc'"
    and "py_getitem data ''type'' = Inr (JStr ''GroupScene'')"
    and "py_getitem data ''group'' = Inr gv" "py_int gv = Inr gid"
    and "\<not> dict_has gid (b_groups b)"
  shows "load_scene (sceneId, data) b =
           (Inr (), b\<lparr>b_scenes := dict_set sceneId sc' (b_scenes b)\<rparr>)"
  using assms getitem_contains [OF assms(3)]
  by (simp add: load_scene_def link_scene_def link_group_def py_eq_str_def Bridge_group_def
      dict_has_get)

lemma load_last_on_state:
  assumes "Scene_new data = Inr sc" "Scene_init sceneId sc = Inr sc'"
    and "py_getitem data ''type'' = Inr (JStr ''LightScene'')"
    and "py_getitem data ''name'' = Inr (JStr ''Last on state'')"
  shows "load_scene (sceneId, data) b =
           (Inr (), b\<lparr>b_scenes := dict_set sceneId sc' (b_scenes b)\<rparr>)"
  using assms getitem_contains [OF assms(3)]
  by (simp add: load_scene_def link_scene_def py_eq_str_def)

lemma load_light_scene:
  assumes "Scene_new data = Inr sc" "Scene_init sceneId sc = Inr sc'"
    and "py_getitem data ''type'' = Inr (JStr ''LightScene'')"
    and "py_getitem data ''name'' = Inr n" "n \<noteq> JStr ''Last on state''"
    and "py_getitem data ''lights'' = Inr ls" "py_iter ls = Inr ids"
    and "map py_int ids = map Inr ks" "0 \<notin> set ks"
    and "distinct (map fst (b_lights b))"
    and "list_all (\<lambda>p. is_list (l_myScenes (snd p))) (b_lights b)"
  shows "load_scene (sceneId, data) b =
           (Inr (), b\<lparr>b_scenes := dict_set sceneId sc' (b_scenes b),
                      b_lights := linked sceneId ks (b_lights b)\<rparr>)"
proof -
  let ?b = "b\<lparr>b_scenes := dict_set sceneId sc' (b_scenes b)\<rparr>"
  have "for_each (link_light sceneId) ids ?b =
          (Inr (), ?b\<lparr>b_lights := linked sceneId ks (b_lights ?b)\<rparr>)"
    by (rule link_lights_loop [OF assms(8,9)]) (simp_all add: assms(10,11))
  with assms(1-7) getitem_contains [OF assms(3)] show ?thesis
    by (simp add: load_scene_def link_scene_def py_eq_str_def)
qed

lemma load_light_scene_zero:
  assumes "Scene_new data = Inr sc" "Scene_init sceneId sc = Inr sc'"
    and "py_getitem data ''type'' = Inr (JStr ''LightScene'')"
    and "py_getitem data ''name'' = Inr n" "n \<noteq> JStr ''Last on state''"
    and "py_getitem data ''lights'' = Inr ls" "py_iter ls = Inr (ids @ i # rest)"
    and "map py_int ids = map Inr ks" "0 \<notin> set ks" "py_int i = Inr 0"
    and "distinct (map fst (b_lights b))"
    and "list_all (\<lambda>p. is_list (l_myScenes (snd p))) (b_lights b)"
  shows "load_scene (sceneId, data) b =
           (Inl SelectorError, b\<lparr>b_scenes := dict_set sceneId sc' (b_scenes b),
                                 b_lights := linked sceneId ks (b_lights b)\<rparr>)"
proof -
  let ?b = "b\<lparr>b_scenes := dict_set sceneId sc' (b_scenes b)\<rparr>"
  have "for_each (link_light sceneId) (ids @ i # rest) ?b =
          (Inl SelectorError, ?b\<lparr>b_lights := linked sceneId ks (b_lights ?b)\<rparr>)"
    by (rule link_lights_zero [OF assms(8,9,10)]) (simp_all add: assms(11,12))
  with assms(1-7) getitem_contains [OF assms(3)] show ?thesis
    by (simp add: load_scene_def link_scene_def py_eq_str_def)
qed

lemma load_light_scene_raises:
  assumes "Scene_new data = Inr sc" "Scene_init sceneId sc = Inr sc'"
    and "py_getitem data ''type'' = Inr (JStr ''LightScene'')"
    and "py_getitem data ''name'' = Inr n" "n \<noteq> JStr ''Last on state''"
    and "py_getitem data ''lights'' = Inr ls" "py_iter ls = Inr (ids @ i # rest)"
    and "map py_int ids = map Inr ks" "0 \<notin> set ks" "py_int i = Inl e"
    and "distinct (map fst (b_lights b))"
    and "list_all (\<lambda>p. is_list (l_myScenes (snd p))) (b_lights b)"
  shows "load_scene (sceneId, data) b =
           (Inl e, b\<lparr>b_scenes := dict_set sceneId sc' (b_scenes b),
                     b_lights := linked sceneId ks (b_lights b)\<rparr>)"
proof -
  let ?b = "b\<lparr>b_scenes := dict_set sceneId sc' (b_scenes b)\<rparr>"
  have "for_each (link_light sceneId) (ids @ i # rest) ?b =
          (Inl e, ?b\<lparr>b_lights := linked sceneId ks (b_lights ?b)\<rparr>)"
    by (rule link_lights_raises [OF assms(8,9,10)]) (simp_all add: assms(11,12))
  with assms(1-7) getitem_contains [OF assms(3)] show ?thesis
    by (simp add: load_scene_def link_scene_def py_eq_str_def)
qed

text \<open>
  C8, as the code has it, for the body of the loop over the scenes in \<^verbatim>\<open>loadDevices\<close>,
  run on a scene whose payload the constructor of \<^verbatim>\<open>Scene\<close> accepts. A GroupScene whose
  \<^verbatim>\<open>group\<close> converts to an id that is not in the registry is stored and nothing else
  changes: no exception, no group entry. A LightScene named \<open>Last on state\<close> is stored and
  nothing else changes: no light receives its id. For any other LightScene the registry
  is one whose lights have a list as \<^verbatim>\<open>myScenes\<close>. When every referenced id converts
  to an integer other than 0, the scene is stored and its id is appended to the
  \<^verbatim>\<open>myScenes\<close> of every referenced light of the registry, once for each reference, and
  the ids that are not in the registry are skipped. A referenced id that converts to 0 is
  not skipped: \<^verbatim>\<open>light(0)\<close> raises the selector error, which only the handler for
  NoSuchLight could have caught, so the error leaves the loop, after the ids before it
  have been linked. A referenced id that \<^verbatim>\<open>int()\<close> does not convert is not skipped
  either: the error of the conversion leaves the loop in the same way.
\<close>

theorem scene_cross_linking:
  "(\<forall>sceneId data b sc sc' gv gid.
      Scene_new data = Inr sc \<and> Scene_init sceneId sc = Inr sc' \<and>
      py_getitem data ''type'' = Inr (JStr ''GroupScene'') \<and>
      py_getitem data ''group'' = Inr gv \<and> py_int gv = Inr gid \<and>
      \<not> dict_has gid (b_groups b)
      \<longrightarrow> load_scene (sceneId, data) b =
            (Inr (), b\<lparr>b_scenes := dict_set sceneId sc' (b_scenes b)\<rparr>)) \<and>
   (\<forall>sceneId data b sc sc'.
      Scene_new data = Inr sc \<and> Scene_init sceneId sc = Inr sc' \<and>
      py_getitem data ''type'' = Inr (JStr ''LightScene'') \<and>
      py_getitem data ''name'' = Inr (JStr ''Last on state'')
      \<longrightarrow> load_scene (sceneId, data) b =
            (Inr (), b\<lparr>b_scenes := dict_set sceneId sc' (b_scenes b)\<rparr>)) \<and>
   (\<forall>sceneId data b sc sc' n ls ids ks.
      Scene_new data = Inr sc \<and> Scene_init sceneId sc = Inr sc' \<and>
      py_getitem data ''type'' = Inr (JStr ''LightScene'') \<and>
      py_getitem data ''name'' = Inr n \<and> n \<noteq> JStr ''Last on state'' \<and>
      py_getitem data ''lights'' = Inr ls \<and> py_iter ls = Inr ids \<and>
      map py_int ids = map Inr ks \<and> 0 \<notin> set ks \<and>
      distinct (map fst (b_lights b)) \<and>
      list_all (\<lambda>p. is_list (l_myScenes (snd p))) (b_lights b)
      \<longrightarrow> load_scene (sceneId, data) b =
            (Inr (), b\<lparr>b_scenes := dict_set sceneId sc' (b_scenes b),
                       b_lights := linked sceneId ks (b_lights b)\<rparr>)) \<and>
   (\<forall>sceneId data b sc sc' n ls ids i rest ks.
      Scene_new data = Inr sc \<and> Scene_init sceneId sc = Inr sc' \<and>
      py_getitem data ''type'' = Inr (JStr ''LightScene'') \<and>
      py_getitem data ''name'' = Inr n \<and> n \<noteq> JStr ''Last on state'' \<and>
      py_getitem data ''lights'' = Inr ls \<and> py_iter ls = Inr (ids @ i # rest) \<and>
      map py_int ids = map Inr ks \<and> 0 \<notin> set ks \<and> py_int i = Inr 0 \<and>
      distinct (map fst (b_lights b)) \<and>
      list_all (\<lambda>p. is_list (l_myScenes (snd p))) (b_lights b)
      \<longrightarrow> load_scene (sceneId, data) b =
            (Inl SelectorError, b\<lparr>b_scenes := dict_set sceneId sc' (b_scenes b),
                                  b_lights := linked sceneId ks (b_lights b)\<rparr>)) \<and>
   (\<forall>sceneId data b sc sc' n ls ids i rest ks e.
      Scene_new data = Inr sc \<and> Scene_init sceneId sc = Inr sc' \<and>
      py_getitem data ''type'' = Inr (JStr ''LightScene'') \<and>
      py_getitem data ''name'' = Inr n \<and> n \<noteq> JStr ''Last on state'' \<and>
      py_getitem data ''lights'' = Inr ls \<and> py_iter ls = Inr (ids @ i # rest) \<and>
      map py_int ids = map Inr ks \<and> 0 \<notin> set ks \<and> py_int i = Inl e \<and>
      distinct (map fst (b_lights b)) \<and>
      list_all (\<lambda>p. is_list (l_myScenes (snd p))) (b_lights b)
      \<longrightarrow> load_scene (sceneId, data) b =
            (Inl e, b\<lparr>b_scenes := dict_set sceneId sc' (b_scenes b),
                      b_lights := linked sceneId ks (b_lights b)\<rparr>))"
proof (intro conjI allI impI; elim conjE)
  show "\<And>sceneId data b sc sc' gv gid.
      Scene_new data = Inr sc \<Longrightarrow> Scene_init sceneId sc = Inr sc' \<Longrightarrow>
      py_getitem data ''type'' = Inr (JStr ''GroupScene'') \<Longrightarrow>
      py_getitem data ''group'' = Inr gv \<Longrightarrow> py_int gv = Inr gid \<Longrightarrow>
      \<not> dict_has gid (b_groups b) \<Longrightarrow>
      load_scene (sceneId, data) b =
        (Inr (), b\<lparr>b_scenes := dict_set sceneId sc' (b_scenes b)\<rparr>)"
    by (rule load_group_scene)
  show "\<And>sceneId data b sc sc'.
      Scene_new data = Inr sc \<Longrightarrow> Scene_init sceneId sc = Inr sc' \<Longrightarrow>
      py_getitem data ''type'' = Inr (JStr ''LightScene'') \<Longrightarrow>
      py_getitem data ''name'' = Inr (JStr ''Last on state'') \<Longrightarrow>
      load_scene (sceneId, data) b =
        (Inr (), b\<lparr>b_scenes := dict_set sceneId sc' (b_scenes b)\<rparr>)"
    by (rule load_last_on_state)
  show "\<And>sceneId data b sc sc' n ls ids ks.
      Scene_new data = Inr sc \<Longrightarrow> Scene_init sceneId sc = Inr sc' \<Longrightarrow>
      py_getitem data ''type'' = Inr (JStr ''LightScene'') \<Longrightarrow>
      py_getitem data ''name'' = Inr n \<Longrightarrow> n \<noteq> JStr ''Last on state'' \<Longrightarrow>
      py_getitem data ''lights'' = Inr ls \<Longrightarrow> py_iter ls = Inr ids \<Longrightarrow>
      map py_int ids = map Inr ks \<Longrightarrow> 0 \<notin> set ks \<Longrightarrow>
      distinct (map fst (b_lights b)) \<Longrightarrow>
      list_all (\<lambda>p. is_list (l_myScenes (snd p))) (b_lights b) \<Longrightarrow>
      load_scene (sceneId, data) b =
        (Inr (), b\<lparr>b_scenes := dict_set sceneId sc' (b_scenes b),
                   b_lights := linked sceneId ks (b_lights b)\<rparr>)"
    by (rule load_light_scene)
  show "\<And>sceneId data b sc sc' n ls ids i rest ks.
      Scene_new data = Inr sc \<Longrightarrow> Scene_init sceneId sc = Inr sc' \<Longrightarrow>
      py_getitem data ''type'' = Inr (JStr ''LightScene'') \<Longrightarrow>
      py_getitem data ''name'' = Inr n \<Longrightarrow> n \<noteq> JStr ''Last on state'' \<Longrightarrow>
      py_getitem data ''lights'' = Inr ls \<Longrightarrow> py_iter ls = Inr (ids @ i # rest) \<Longrightarrow>
      map py_int ids = map Inr ks \<Longrightarrow> 0 \<notin> set ks \<Longrightarrow> py_int i = Inr 0 \<Longrightarrow>
      distinct (map fst (b_lights b)) \<Longrightarrow>
      list_all (\<lambda>p. is_list (l_myScenes (snd p))) (b_lights b) \<Longrightarrow>
      load_scene (sceneId, data) b =
        (Inl SelectorError, b\<lparr>b_scenes := dict_set sceneId sc' (b_scenes b),
                              b_lights := linked sceneId ks (b_lights b)\<rparr>)"
    by (rule load_light_scene_zero)
  show "\<And>sceneId data b sc sc' n ls ids i rest ks e.
      Scene_new data = Inr sc \<Longrightarrow> Scene_init sceneId sc = Inr sc' \<Longrightarrow>
      py_getitem data ''type'' = Inr (JStr ''LightScene'') \<Longrightarrow>
      py_getitem data ''name'' = Inr n \<Longrightarrow> n \<noteq> JStr ''Last on state'' \<Longrightarrow>
      py_getitem data ''lights'' = Inr ls \<Longrightarrow> py_iter ls = Inr (ids @ i # rest) \<Longrightarrow>
      map py_int ids = map Inr ks \<Longrightarrow> 0 \<notin> set ks \<Longrightarrow> py_int i = Inl e \<Longrightarrow>
      distinct (map fst (b_lights b)) \<Longrightarrow>
      list_all (\<lambda>p. is_list (l_myScenes (snd p))) (b_lights b) \<Longrightarrow>
      load_scene (sceneId, data) b =
        (Inl e, b\<lparr>b_scenes := dict_set sceneId sc' (b_scenes b),
                  b_lights := linked sceneId ks (b_lights b)\<rparr>)"
    by (rule load_light_scene_raises)
qed

text \<open>
  The five cases on the registry \<open>two_kitchens\<close>, whose lights are 1 and 2: a GroupScene
  of the unknown group 7; a LightScene named \<open>Last on state\<close> that references light 1; a
  LightScene that references light 2 twice and the unknown light 5; a LightScene that
  references the lights 2, 0 and 1; a LightScene that references the lights 2, \<open>x\<close> and 1.
\<close>

theorem scene_cross_linking_witness:
  "\<not> dict_has 7 (b_groups two_kitchens) \<and> 0 \<notin> set [2, 5, 2 :: int] \<and>
   load_scene (''s1'', scene_data ''Evening'' ''GroupScene'' (JList []) (JStr ''7'')) two_kitchens =
     (Inr (),
      two_kitchens
        \<lparr>b_scenes := [(''s1'', demo_scene ''s1'' ''evening'' ''GroupScene'' (JList []) (JStr ''7''))]\<rparr>) \<and>
   load_scene (''s2'', scene_data ''Last on state'' ''LightScene'' (JList [JStr ''1'']) (JStr []))
       two_kitchens =
     (Inr (),
      two_kitchens
        \<lparr>b_scenes := [(''s2'', demo_scene ''s2'' ''last on state'' ''LightScene'' (JList [JStr ''1''])
                                (JStr []))]\<rparr>) \<and>
   load_scene (''s3'', scene_data ''Evening'' ''LightScene'' (JList [JStr ''2'', JStr ''5'', JStr ''2''])
                        (JStr []))
       two_kitchens =
     (Inr (),
      two_kitchens
        \<lparr>b_scenes := [(''s3'', demo_scene ''s3'' ''evening'' ''LightScene''
                                (JList [JStr ''2'', JStr ''5'', JStr ''2'']) (JStr []))],
         b_lights := [(1, demo_light 1 ''kitchen'' True),
                      (2, (demo_light 2 ''kitchen'' False)
                            \<lparr>l_myScenes := JList [JStr ''s3'', JStr ''s3'']\<rparr>)]\<rparr>) \<and>
   load_scene (''s4'', scene_data ''Evening'' ''LightScene'' (JList [JStr ''2'', JStr ''0'', JStr ''1''])
                        (JStr []))
       two_kitchens =
     (Inl SelectorError,
      two_kitchens
        \<lparr>b_scenes := [(''s4'', demo_scene ''s4'' ''evening'' ''LightScene''
                                (JList [JStr ''2'', JStr ''0'', JStr ''1'']) (JStr []))],
         b_lights := [(1, demo_light 1 ''kitchen'' True),
                      (2, (demo_light 2 ''kitchen'' False)\<lparr>l_myScenes := JList [JStr ''s4'']\<rparr>)]\<rparr>) \<and>
   load_scene (''s5'', scene_data ''Evening'' ''LightScene'' (JList [JStr ''2'', JStr ''x'', JStr ''1''])
                        (JStr []))
       two_kitchens =
     (Inl ValueError,
      two_kitchens
        \<lparr>b_scenes := [(''s5'', demo_scene ''s5'' ''evening'' ''LightScene''
                                (JList [JStr ''2'', JStr ''x'', JStr ''1'']) (JStr []))],
         b_lights := [(1, demo_light 1 ''kitchen'' True),
                      (2, (demo_light 2 ''kitchen'' False)\<lparr>l_myScenes := JList [JStr ''s5'']\<rparr>)]\<rparr>)"
proof -
  let ?new = "\<lambda>name type lights grp.
                (demo_scene [] name type lights grp)\<lparr>s_bridge := False\<rparr>"
  have new: "Scene_new (scene_data name type lights grp) = Inr (?new name type lights grp)"
    for name type lights grp
    by (simp add: scene_data_def demo_scene_def kwargs_ok_def Scene_required_def
        Scene_optional_def arg_def dict_get_def dict_has_def)
  have low: "lower ''Evening'' = ''evening''" "lower ''Last on state'' = ''last on state''"
    by code_simp+
  have init1: "Scene_init sid (?new ''Evening'' type lights grp) =
                 Inr (demo_scene sid ''evening'' type lights grp)" for sid type lights grp
    by (simp add: Scene_init_def demo_scene_def low)
  have init2: "Scene_init sid (?new ''Last on state'' type lights grp) =
                 Inr (demo_scene sid ''last on state'' type lights grp)" for sid type lights grp
    by (simp add: Scene_init_def demo_scene_def low)
  have ty: "py_getitem (scene_data name type lights grp) ''type'' = Inr (JStr type)"
    and nm: "py_getitem (scene_data name type lights grp) ''name'' = Inr (JStr name)"
    and lt: "py_getitem (scene_data name type lights grp) ''lights'' = Inr lights"
    and gr: "py_getitem (scene_data name type lights grp) ''group'' = Inr grp"
    for name type lights grp
    by (simp_all add: scene_data_def dict_get_def)
  have seven: "py_int (JStr ''7'') = Inr 7" by code_simp
  have zero: "py_int (JStr ''0'') = Inr 0" by code_simp
  have bad: "py_int (JStr ''x'') = Inl ValueError" by code_simp
  have ids3: "map py_int [JStr ''2'', JStr ''5'', JStr ''2''] = map Inr [2, 5, 2]" by code_simp
  have ids4: "map py_int [JStr ''2''] = map Inr [2]" by code_simp
  have it3: "py_iter (JList [JStr ''2'', JStr ''5'', JStr ''2'']) = Inr [JStr ''2'', JStr ''5'', JStr ''2'']"
    by simp
  have it4: "py_iter (JList [JStr ''2'', JStr ''0'', JStr ''1'']) = Inr ([JStr ''2''] @ JStr ''0'' # [JStr ''1''])"
    by simp
  have it5: "py_iter (JList [JStr ''2'', JStr ''x'', JStr ''1'']) = Inr ([JStr ''2''] @ JStr ''x'' # [JStr ''1''])"
    by simp
  have other: "JStr ''Evening'' \<noteq> JStr ''Last on state''" by simp
  have nz3: "0 \<notin> set [2, 5, 2 :: int]" and nz4: "0 \<notin> set [2 :: int]" by simp_all
  have g7: "\<not> dict_has 7 (b_groups two_kitchens)"
    by (simp add: two_kitchens_def dict_has_def)
  have dist: "distinct (map fst (b_lights two_kitchens))"
    by (simp add: two_kitchens_def)
  have lists: "list_all (\<lambda>p. is_list (l_myScenes (snd p))) (b_lights two_kitchens)"
    by (simp add: two_kitchens_def demo_light_def)
  have sc: "dict_set sid s (b_scenes two_kitchens) = [(sid, s)]" for sid s
    by (simp add: two_kitchens_def demo_bridge_def)
  have l3: "linked ''s3'' [2, 5, 2] (b_lights two_kitchens) =
              [(1, demo_light 1 ''kitchen'' True),
               (2, (demo_light 2 ''kitchen'' False)\<lparr>l_myScenes := JList [JStr ''s3'', JStr ''s3'']\<rparr>)]"
    by (simp add: linked_def with_scene_def two_kitchens_def demo_light_def)
  have l4: "linked sid [2] (b_lights two_kitchens) =
              [(1, demo_light 1 ''kitchen'' True),
               (2, (demo_light 2 ''kitchen'' False)\<lparr>l_myScenes := JList [JStr sid]\<rparr>)]" for sid
    by (simp add: linked_def with_scene_def two_kitchens_def demo_light_def)
  note facts = new init1 init2 ty nm lt gr seven zero bad ids3 ids4 it3 it4 it5 other nz3 nz4 g7
    dist lists
  have "load_scene (''s1'', scene_data ''Evening'' ''GroupScene'' (JList []) (JStr ''7'')) two_kitchens =
     (Inr (),
      two_kitchens
        \<lparr>b_scenes := dict_set ''s1'' (demo_scene ''s1'' ''evening'' ''GroupScene'' (JList []) (JStr ''7''))
                        (b_scenes two_kitchens)\<rparr>)"
    by (rule scene_cross_linking [THEN conjunct1, rule_format]) (intro conjI, (rule facts)+)
  moreover have "load_scene (''s2'', scene_data ''Last on state'' ''LightScene'' (JList [JStr ''1'']) (JStr []))
       two_kitchens =
     (Inr (),
      two_kitchens
        \<lparr>b_scenes := dict_set ''s2'' (demo_scene ''s2'' ''last on state'' ''LightScene'' (JList [JStr ''1''])
                                (JStr [])) (b_scenes two_kitchens)\<rparr>)"
    by (rule scene_cross_linking [THEN conjunct2, THEN conjunct1, rule_format])
      (intro conjI, (rule facts)+)
  moreover have "load_scene (''s3'', scene_data ''Evening'' ''LightScene'' (JList [JStr ''2'', JStr ''5'', JStr ''2''])
                        (JStr []))
       two_kitchens =
     (Inr (),
      two_kitchens
        \<lparr>b_scenes := dict_set ''s3'' (demo_scene ''s3'' ''evening'' ''LightScene''
                                (JList [JStr ''2'', JStr ''5'', JStr ''2'']) (JStr [])) (b_scenes two_kitchens),
         b_lights := linked ''s3'' [2, 5, 2] (b_lights two_kitchens)\<rparr>)"
    by (rule scene_cross_linking [THEN conjunct2, THEN conjunct2, THEN conjunct1, rule_format])
      (intro conjI, (rule facts)+)
  moreover have "load_scene (''s4'', scene_data ''Evening'' ''LightScene'' (JList [JStr ''2'', JStr ''0'', JStr ''1''])
                        (JStr []))
       two_kitchens =
     (Inl SelectorError,
      two_kitchens
        \<lparr>b_scenes := dict_set ''s4'' (demo_scene ''s4'' ''evening'' ''LightScene''
                                (JList [JStr ''2'', JStr ''0'', JStr ''1'']) (JStr [])) (b_scenes two_kitchens),
         b_lights := linked ''s4'' [2] (b_lights two_kitchens)\<rparr>)"
    by (rule scene_cross_linking
          [THEN conjunct2, THEN conjunct2, THEN conjunct2, THEN conjunct1, rule_format])
      (intro conjI, (rule facts)+)
  moreover have "load_scene (''s5'', scene_data ''Evening'' ''LightScene'' (JList [JStr ''2'', JStr ''x'', JStr ''1''])
                        (JStr []))
       two_kitchens =
     (Inl ValueError,
      two_kitchens
        \<lparr>b_scenes := dict_set ''s5'' (demo_scene ''s5'' ''evening'' ''LightScene''
                                (JList [JStr ''2'', JStr ''x'', JStr ''1'']) (JStr [])) (b_scenes two_kitchens),
         b_lights := linked ''s5'' [2] (b_lights two_kitchens)\<rparr>)"
    by (rule scene_cross_linking
          [THEN conjunct2, THEN conjunct2, THEN conjunct2, THEN conjunct2, rule_format])
      (intro conjI, (rule facts)+)
  ultimately show ?thesis
    unfolding sc l3 l4 using g7 nz3 by blast
qed

text \<open>
  C8 as stated fails for the light id 0: the bridge reports the light 1 and a LightScene
  that references the light id 0, and \<^verbatim>\<open>loadDevices\<close> raises the selector error.
\<close>

theorem light_zero_in_scene_raises:
  "fst (loadDevices
          (net_hue (JObj [])
                   (JObj [(''1'', light_data ''Kitchen'' True)])
                   (JObj [(''s1'', scene_data ''Evening'' ''LightScene'' (JList [JStr ''0'']) (JStr []))]))
          demo_bridge)
   = Inl SelectorError"
  by code_simp

end
